theory Spec2Isabelle
  imports Complex_Main "HOL-Library.AList"
begin

section \<open>Python values\<close>

text \<open>
  The values that flow through \<^verbatim>\<open>aiospotify/http.py\<close>: decoded response bodies, query
  parameters, request bodies and route placeholders are all \<^verbatim>\<open>Any\<close> in the source. A
  Python \<^verbatim>\<open>str\<close> is given by its bytes in UTF-8, so that every code point can occur; a
  lone surrogate, which strict UTF-8 refuses, is given by the three bytes that the
  \<^verbatim>\<open>surrogatepass\<close> handler writes for it (\<^verbatim>\<open>ED A0 80\<close> to \<^verbatim>\<open>ED BF BF\<close>). ASCII characters
  are single bytes below 128 and occur nowhere else, so comparing, joining and scanning
  for ASCII characters work on the bytes as they do on the code points. A \<^verbatim>\<open>dict\<close> with
  string keys is an association list in insertion order.
\<close>

datatype py =
    PNone
  | PBool bool
  | PInt int
  | PFloat real
  | PStr string
  | PList "py list"
  | PDict "(string \<times> py) list"

text \<open>Truth value testing, as \<^verbatim>\<open>if x:\<close> and \<^verbatim>\<open>x or y\<close> do it.\<close>

fun truthy :: "py \<Rightarrow> bool" where
  "truthy PNone = False"
| "truthy (PBool b) = b"
| "truthy (PInt i) = (i \<noteq> 0)"
| "truthy (PFloat x) = (x \<noteq> 0)"
| "truthy (PStr s) = (s \<noteq> [])"
| "truthy (PList xs) = (xs \<noteq> [])"
| "truthy (PDict kvs) = (kvs \<noteq> [])"

text \<open>Optional arguments typed \<^verbatim>\<open>str | None\<close>, \<^verbatim>\<open>int | None\<close> and \<^verbatim>\<open>list | None\<close>.\<close>

definition truthy_str :: "string option \<Rightarrow> bool" where
  "truthy_str s = (case s of None \<Rightarrow> False | Some x \<Rightarrow> x \<noteq> [])"

definition truthy_int :: "int option \<Rightarrow> bool" where
  "truthy_int i = (case i of None \<Rightarrow> False | Some x \<Rightarrow> x \<noteq> 0)"

definition truthy_list :: "'a list option \<Rightarrow> bool" where
  "truthy_list xs = (case xs of None \<Rightarrow> False | Some x \<Rightarrow> x \<noteq> [])"

text \<open>\<^verbatim>\<open>d[key] = value\<close> on a dict: an existing key keeps its place, a new one goes last.\<close>

definition setitem ::
  "(string \<times> py) list \<Rightarrow> string \<Rightarrow> py
     \<Rightarrow> (string \<times> py) list" where
  "setitem d k v = AList.update k v d"

text \<open>\<^verbatim>\<open>d.keys()\<close>, as a set.\<close>

definition keys :: "(string \<times> 'a) list \<Rightarrow> string set" where
  "keys d = fst ` set d"

text \<open>\<^verbatim>\<open>",".join(xs)\<close>\<close>

fun join :: "string \<Rightarrow> string list \<Rightarrow> string" where
  "join sep [] = []"
| "join sep [x] = x"
| "join sep (x # y # ys) = x @ sep @ join sep (y # ys)"

section \<open>Responses and exceptions\<close>

text \<open>
  What the engine reads of an \<^verbatim>\<open>aiohttp.ClientResponse\<close>: its status and its headers.
  \<open>headers r name\<close> is the result of \<^verbatim>\<open>response.headers[name]\<close>, \<open>None\<close> when that
  lookup raises \<^verbatim>\<open>KeyError\<close>.
\<close>

record response =
  status :: int
  headers :: "string \<Rightarrow> string option"

text \<open>
  Every exception that the modelled code raises or lets through. \<open>MappedError cls r e\<close>
  is \<^verbatim>\<open>values.EXCEPTION_MAPPING[status](response, error)\<close>, with \<open>cls\<close> the class the
  table names, and \<open>UnicodeEncodeError s\<close> is raised for the string \<open>s\<close> that UTF-8 cannot
  encode. \<open>Unmodelled\<close> is not a Python exception: it marks the inputs of
  \<^verbatim>\<open>str.format_map\<close> whose Python behaviour this development does not describe.
\<close>

datatype exn =
    ValueError string
  | KeyError py
  | TypeError string
  | AttributeError string
  | UnboundLocalError string
  | RuntimeError string
  | OSError "int option"
  | UnicodeEncodeError string
  | RequestEntityTooLarge response py
  | HTTPError response py
  | MappedError string response py
  | Unmodelled

section \<open>Route\<close>

subsection \<open>\<^verbatim>\<open>urllib.parse.quote\<close> with its default \<^verbatim>\<open>safe='/'\<close>\<close>

definition always_safe :: string where
  "always_safe = ''ABCDEFGHIJKLMNOPQRSTUVWXYZabcdefghijklmnopqrstuvwxyz0123456789_.-~''"

definition hexdigit :: "nat \<Rightarrow> char" where
  "hexdigit n = ''0123456789ABCDEF'' ! (n mod 16)"

definition percent :: "nat \<Rightarrow> string" where
  "percent b = [CHR ''%'', hexdigit (b div 16), hexdigit (b mod 16)]"

text \<open>
  \<^verbatim>\<open>quote\<close> first encodes the string with \<^verbatim>\<open>string.encode('utf-8', 'strict')\<close>, which raises
  \<^verbatim>\<open>UnicodeEncodeError\<close> when the string holds a lone surrogate: in the bytes of a string,
  that is a byte \<^verbatim>\<open>ED\<close> followed by a byte from \<^verbatim>\<open>A0\<close> to \<^verbatim>\<open>BF\<close>. Otherwise the encoding
  is the bytes themselves.
\<close>

fun has_surrogate :: "string \<Rightarrow> bool" where
  "has_surrogate (c # d # cs) =
     ((of_char c = (237::nat) \<and> (160::nat) \<le> of_char d \<and> of_char d \<le> (191::nat))
      \<or> has_surrogate (d # cs))"
| "has_surrogate cs = False"

text \<open>\<^verbatim>\<open>quote_from_bytes\<close>: a safe byte stands for itself, any other byte is \<^verbatim>\<open>%XX\<close>.\<close>

definition quote_char :: "char \<Rightarrow> string" where
  "quote_char c =
     (if c \<in> set always_safe \<or> c = CHR ''/'' then [c] else percent (of_char c))"

definition quote_from_bytes :: "string \<Rightarrow> string" where
  "quote_from_bytes bs = concat (map quote_char bs)"

definition quote :: "string \<Rightarrow> exn + string" where
  "quote s = (if has_surrogate s then Inl (UnicodeEncodeError s) else Inr (quote_from_bytes s))"

subsection \<open>\<^verbatim>\<open>str.format_map\<close>\<close>

text \<open>
  CPython's format-string iterator, for replacement fields that are a plain keyword
  name. A field is scanned up to its closing brace first (\<^verbatim>\<open>parse_field\<close>): an opening
  brace inside a field name and a missing closing brace are \<^verbatim>\<open>ValueError\<close>s. Fields
  with a conversion (\<^verbatim>\<open>!r\<close>), a format specification (\<^verbatim>\<open>:>10\<close>), an attribute or an
  index (\<^verbatim>\<open>{a.b}\<close>, \<^verbatim>\<open>{a[0]}\<close>), and field names with a character outside ASCII (some of
  which Python reads as digits), are outside this model and yield \<open>Unmodelled\<close>.
\<close>

fun scan_field :: "string \<Rightarrow> exn + (string \<times> string)" where
  "scan_field [] = Inl (ValueError ''expected '}' before end of string'')"
| "scan_field (c # cs) =
     (if c = CHR ''{'' then Inl (ValueError ''unexpected '{' in field name'')
      else if c = CHR ''}'' then Inr ([], cs)
      else if c = CHR ''['' \<or> c = CHR '':'' \<or> c = CHR ''!'' then Inl Unmodelled
      else (case scan_field cs of
              Inl e \<Rightarrow> Inl e
            | Inr (name, rest) \<Rightarrow> Inr (c # name, rest)))"

text \<open>
  \<^verbatim>\<open>get_field_object\<close>: an empty or all-digit name is a positional field, which
  \<^verbatim>\<open>format_map\<close> refuses (CPython words the \<^verbatim>\<open>ValueError\<close> differently when the number
  is too long for a machine integer); any other name is looked up in the mapping. The value found
  is rendered by \<^verbatim>\<open>format(value, "")\<close>: a \<^verbatim>\<open>str\<close> is itself, and \<open>fv\<close> stands for what
  \<^verbatim>\<open>format\<close> returns for a value of any other type.
\<close>

definition is_ascii :: "char \<Rightarrow> bool" where
  "is_ascii c = (of_char c < (128::nat))"

definition is_digit :: "char \<Rightarrow> bool" where
  "is_digit c = (c \<in> set ''0123456789'')"

definition format_value :: "(py \<Rightarrow> string) \<Rightarrow> py \<Rightarrow> string" where
  "format_value fv v = (case v of PStr s \<Rightarrow> s | _ \<Rightarrow> fv v)"

definition get_field ::
  "(py \<Rightarrow> string) \<Rightarrow> string \<Rightarrow> (string \<times> py) list
     \<Rightarrow> exn + string" where
  "get_field fv name kwargs =
     (if list_all is_digit name then Inl (ValueError ''Format string contains positional fields'')
      else if CHR ''.'' \<in> set name \<or> \<not> list_all is_ascii name then Inl Unmodelled
      else (case map_of kwargs name of
              None \<Rightarrow> Inl (KeyError (PStr name))
            | Some v \<Rightarrow> Inr (format_value fv v)))"

lemma scan_field_shorter: "scan_field cs = Inr (name, rest) \<Longrightarrow> length rest < length cs"
  by (induction cs arbitrary: name rest) (auto split: if_splits sum.splits)

function format_map :: "(py \<Rightarrow> string) \<Rightarrow> string \<Rightarrow> (string \<times> py) list \<Rightarrow> exn + string" where
  "format_map fv [] kwargs = Inr []"
| "format_map fv (c # cs) kwargs =
     (if c = CHR ''}'' then
        (case cs of
           [] \<Rightarrow> Inl (ValueError ''Single '}' encountered in format string'')
         | d # ds \<Rightarrow>
             if d = CHR ''}'' then
               (case format_map fv ds kwargs of Inl e \<Rightarrow> Inl e | Inr out \<Rightarrow> Inr (c # out))
             else Inl (ValueError ''Single '}' encountered in format string''))
      else if c = CHR ''{'' then
        (case cs of
           [] \<Rightarrow> Inl (ValueError ''Single '{' encountered in format string'')
         | d # ds \<Rightarrow>
             if d = CHR ''{'' then
               (case format_map fv ds kwargs of Inl e \<Rightarrow> Inl e | Inr out \<Rightarrow> Inr (c # out))
             else
               (case scan_field cs of
                  Inl e \<Rightarrow> Inl e
                | Inr (name, rest) \<Rightarrow>
                    (case get_field fv name kwargs of
                       Inl e \<Rightarrow> Inl e
                     | Inr s \<Rightarrow>
                         (case format_map fv rest kwargs of
                            Inl e \<Rightarrow> Inl e
                          | Inr out \<Rightarrow> Inr (s @ out)))))
      else (case format_map fv cs kwargs of Inl e \<Rightarrow> Inl e | Inr out \<Rightarrow> Inr (c # out)))"
  by pat_completeness auto
termination
  by (relation "measure (\<lambda>(fv, s, kwargs). length s)")
     (auto dest!: scan_field_shorter simp del: scan_field.simps)

subsection \<open>The class \<^verbatim>\<open>Route\<close>\<close>

datatype HTTPMethod = GET | POST | DELETE | PATCH | PUT

record Route =
  http_method :: HTTPMethod
  path :: string
  url :: string

definition BASE_URL :: string where
  "BASE_URL = ''https://api.spotify.com/v1''"

text \<open>
  \<^verbatim>\<open>Route.__init__(self, method, path, /, **parameters)\<close>. The keyword arguments are an
  association list; \<^verbatim>\<open>if parameters:\<close> tests that there is at least one.
\<close>

text \<open>
  The dict comprehension \<^verbatim>\<open>{key: quote(value) if isinstance(value, str) else value for
  key, value in parameters.items()}\<close>, built item by item before \<^verbatim>\<open>format_map\<close> is called:
  the first string that \<^verbatim>\<open>quote\<close> refuses ends it.
\<close>

fun quote_value :: "py \<Rightarrow> exn + py" where
  "quote_value (PStr s) = (case quote s of Inl e \<Rightarrow> Inl e | Inr q \<Rightarrow> Inr (PStr q))"
| "quote_value v = Inr v"

fun quote_parameters :: "(string \<times> py) list \<Rightarrow> exn + (string \<times> py) list" where
  "quote_parameters [] = Inr []"
| "quote_parameters ((key, v) # parameters) =
     (case quote_value v of
        Inl e \<Rightarrow> Inl e
      | Inr q \<Rightarrow>
          (case quote_parameters parameters of
             Inl e \<Rightarrow> Inl e
           | Inr quoted \<Rightarrow> Inr ((key, q) # quoted)))"

definition Route_init ::
  "(py \<Rightarrow> string) \<Rightarrow> HTTPMethod \<Rightarrow> string
     \<Rightarrow> (string \<times> py) list \<Rightarrow> exn + Route" where
  "Route_init fv m p parameters =
     (let u = BASE_URL @ p in
      if parameters \<noteq> [] then
        (case quote_parameters parameters of
           Inl e \<Rightarrow> Inl e
         | Inr quoted \<Rightarrow>
             (case format_map fv u quoted of
                Inl e \<Rightarrow> Inl e
              | Inr u' \<Rightarrow> Inr \<lparr>http_method = m, path = p, url = u'\<rparr>))
      else Inr \<lparr>http_method = m, path = p, url = u\<rparr>)"

subsection \<open>Path templates\<close>

text \<open>
  The documentation describes a path as literal text with \<^verbatim>\<open>{name}\<close> placeholders. A
  template of that shape is a list of pieces, \<open>render\<close> writes it as the string that
  \<^verbatim>\<open>Route\<close> receives, and \<open>fill\<close> is the text the documentation puts in place of a
  piece: a string value percent-encoded, any other value as \<^verbatim>\<open>format\<close> prints it. A piece
  is plain when its text has no brace, or when its name is ASCII, is not a number and has
  none of the characters that the format syntax reads. The placeholder arguments are
  \<open>encodable\<close> when no string among them holds a lone surrogate.
\<close>

datatype piece = Literal string | Placeholder string

fun render :: "piece list \<Rightarrow> string" where
  "render [] = []"
| "render (Literal s # ps) = s @ render ps"
| "render (Placeholder n # ps) = CHR ''{'' # n @ CHR ''}'' # render ps"

definition plain_text :: "string \<Rightarrow> bool" where
  "plain_text s = (CHR ''{'' \<notin> set s \<and> CHR ''}'' \<notin> set s)"

definition plain_name :: "string \<Rightarrow> bool" where
  "plain_name n =
     (list_all is_ascii n \<and> \<not> list_all is_digit n \<and> set n \<inter> set ''{}[]:!.'' = {})"

fun plain :: "piece \<Rightarrow> bool" where
  "plain (Literal s) = plain_text s"
| "plain (Placeholder n) = plain_name n"

fun names :: "piece list \<Rightarrow> string list" where
  "names [] = []"
| "names (Literal s # ps) = names ps"
| "names (Placeholder n # ps) = n # names ps"

fun fill ::
  "(py \<Rightarrow> string) \<Rightarrow> (string \<times> py) list \<Rightarrow> piece
     \<Rightarrow> string" where
  "fill fv parameters (Literal s) = s"
| "fill fv parameters (Placeholder n) =
     (case map_of parameters n of
        None \<Rightarrow> []
      | Some v \<Rightarrow> (case v of PStr s \<Rightarrow> quote_from_bytes s | _ \<Rightarrow> fv v))"

fun encodable_value :: "py \<Rightarrow> bool" where
  "encodable_value (PStr s) = (\<not> has_surrogate s)"
| "encodable_value v = True"

definition encodable :: "(string \<times> py) list \<Rightarrow> bool" where
  "encodable parameters = list_all (\<lambda>(key, v). encodable_value v) parameters"

text \<open>The arguments with every string percent-encoded.\<close>

definition percent_encoded :: "(string \<times> py) list \<Rightarrow> (string \<times> py) list" where
  "percent_encoded parameters =
     map (\<lambda>(key, v). (key, case v of PStr s \<Rightarrow> PStr (quote_from_bytes s) | _ \<Rightarrow> v)) parameters"

section \<open>The request engine\<close>

subsection \<open>Collaborators outside the module\<close>

text \<open>
  A credentials object (\<^verbatim>\<open>objects.ClientCredentials\<close> or a user's): its token, and what
  its \<^verbatim>\<open>is_expired()\<close> reports when asked.
\<close>

record credentials =
  access_token :: string
  is_expired :: bool

record ClientSession =
  closed :: bool

text \<open>The arguments of one \<^verbatim>\<open>self._session.request(...)\<close>.\<close>

record http_request =
  req_method :: HTTPMethod
  req_url :: string
  req_headers :: "(string \<times> string) list"
  req_params :: "(string \<times> py) list option"
  req_data :: "py option"

text \<open>
  What one exchange with the transport does: it answers with a response whose body
  \<^verbatim>\<open>utils.json_or_text\<close> decodes to the given value, or it raises before a response
  exists, or it raises while the body of a received response is read.
\<close>

datatype outcome =
    Responds response py
  | Raises exn
  | RaisesAfterResponse response exn

text \<open>The effects of a call, in the order they happen.\<close>

datatype event =
    NewSession
  | CloseSession
  | FromClientSecret string string
  | Refresh credentials
  | Exchange http_request
  | Sleep real

text \<open>
  The parts of the program and of its libraries that are not in \<^verbatim>\<open>http.py\<close>:
  \<^item> \<open>transport w tries\<close>: the outcome of the exchange made at loop index \<open>tries\<close>;
  \<^item> \<open>from_client_secret\<close> and \<open>refresh\<close>: the credential methods, which may raise;
  \<^item> \<open>EXCEPTION_MAPPING\<close>: the table \<^verbatim>\<open>values.EXCEPTION_MAPPING\<close>, status to class name;
  \<^item> \<open>py_float\<close>: the builtin \<^verbatim>\<open>float\<close> on a string, \<open>None\<close> when it raises;
  \<^item> \<open>limit_value\<close>: \<^verbatim>\<open>utils.limit_value(name, value, minimum, maximum)\<close>, returning the
    exception it raises, if any;
  \<^item> \<open>VALID_SEED_KWARGS\<close>: the container \<^verbatim>\<open>values.VALID_SEED_KWARGS\<close>;
  \<^item> \<open>format_other\<close>: \<^verbatim>\<open>format(value, "")\<close> for a value that is not a \<^verbatim>\<open>str\<close>.
\<close>

record env =
  transport :: "nat \<Rightarrow> outcome"
  from_client_secret :: "string \<Rightarrow> string \<Rightarrow> exn + credentials"
  refresh :: "credentials \<Rightarrow> exn + credentials"
  EXCEPTION_MAPPING :: "int \<Rightarrow> string option"
  py_float :: "string \<Rightarrow> real option"
  limit_value :: "string \<Rightarrow> int \<Rightarrow> int \<Rightarrow> int \<Rightarrow> exn option"
  VALID_SEED_KWARGS :: "string list"
  format_other :: "py \<Rightarrow> string"

subsection \<open>The class \<^verbatim>\<open>HTTPClient\<close>\<close>

record HTTPClient =
  client_id :: string
  client_secret :: string
  session :: "ClientSession option"
  client_credentials :: "credentials option"

type_synonym 'a result = "(exn + 'a) \<times> HTTPClient \<times> event list"

definition ensure_session_exists :: "HTTPClient \<Rightarrow> HTTPClient \<times> event list" where
  "ensure_session_exists c =
     (case session c of
        Some s \<Rightarrow> if \<not> closed s then (c, []) else (c\<lparr>session := Some \<lparr>closed = False\<rparr>\<rparr>, [NewSession])
      | None \<Rightarrow> (c\<lparr>session := Some \<lparr>closed = False\<rparr>\<rparr>, [NewSession]))"

text \<open>
  \<^verbatim>\<open>_get_credentials\<close>. \<open>effective\<close> is \<^verbatim>\<open>credentials or self._client_credentials\<close>.
  \<^verbatim>\<open>refresh\<close> mutates the object it is called on: when that object is the cached
  fallback, the client's field holds the refreshed object afterwards.
\<close>

definition effective ::
  "credentials option \<Rightarrow> credentials \<Rightarrow> credentials" where
  "effective credentials fallback = (case credentials of Some cr \<Rightarrow> cr | None \<Rightarrow> fallback)"

definition get_credentials ::
  "env \<Rightarrow> HTTPClient \<Rightarrow> credentials option
     \<Rightarrow> credentials result" where
  "get_credentials w c credentials =
     (case (case client_credentials c of
              None \<Rightarrow>
                (case from_client_secret w (client_id c) (client_secret c) of
                   Inl e \<Rightarrow> Inl e
                 | Inr cc \<Rightarrow>
                     Inr (c\<lparr>client_credentials := Some cc\<rparr>, cc,
                          [FromClientSecret (client_id c) (client_secret c)]))
            | Some cc \<Rightarrow> Inr (c, cc, [])) of
        Inl e \<Rightarrow> (Inl e, c, [FromClientSecret (client_id c) (client_secret c)])
      | Inr (c1, fallback, ev) \<Rightarrow>
          (let cr = effective credentials fallback in
           if is_expired cr then
             (case refresh w cr of
                Inl e \<Rightarrow> (Inl e, c1, ev @ [Refresh cr])
              | Inr cr' \<Rightarrow>
                  (Inr cr',
                   (case credentials of
                      Some given \<Rightarrow> c1
                    | None \<Rightarrow> c1\<lparr>client_credentials := Some cr'\<rparr>),
                   ev @ [Refresh cr]))
           else (Inr cr, c1, ev)))"

definition close :: "HTTPClient \<Rightarrow> HTTPClient \<times> event list" where
  "close c =
     (case session c of
        None \<Rightarrow> (c, [])
      | Some s \<Rightarrow> if closed s then (c, []) else (c\<lparr>session := None\<rparr>, [CloseSession]))"

subsection \<open>\<^verbatim>\<open>HTTPClient.request\<close>\<close>

text \<open>\<^verbatim>\<open>response_data.get(key)\<close> and \<^verbatim>\<open>response_data[key]\<close> on a decoded body.\<close>

definition dict_get :: "py \<Rightarrow> string \<Rightarrow> exn + py" where
  "dict_get d k =
     (case d of
        PDict kvs \<Rightarrow> Inr (case map_of kvs k of None \<Rightarrow> PNone | Some v \<Rightarrow> v)
      | _ \<Rightarrow> Inl (AttributeError ''get''))"

definition getitem :: "py \<Rightarrow> string \<Rightarrow> exn + py" where
  "getitem d k =
     (case d of
        PDict kvs \<Rightarrow> (case map_of kvs k of None \<Rightarrow> Inl (KeyError (PStr k)) | Some v \<Rightarrow> Inr v)
      | PStr s \<Rightarrow> Inl (TypeError ''string indices must be integers'')
      | PList xs \<Rightarrow> Inl (TypeError ''list indices must be integers or slices, not str'')
      | _ \<Rightarrow> Inl (TypeError ''object is not subscriptable''))"

text \<open>
  The handler \<^verbatim>\<open>except OSError as error: if tries < 4 and error.errno in (54, 10054)\<close>:
  whether a raised exception is caught and retried. Any other exception leaves the call.
\<close>

definition retried :: "exn \<Rightarrow> nat \<Rightarrow> bool" where
  "retried e tries =
     (case e of
        OSError errno \<Rightarrow> tries < 4 \<and> (errno = Some 54 \<or> errno = Some 10054)
      | _ \<Rightarrow> False)"

definition backoff :: "nat \<Rightarrow> real" where
  "backoff tries = real (1 + tries * 2)"

text \<open>An \<^verbatim>\<open>aiohttp.ClientResponse\<close> defines neither \<^verbatim>\<open>__bool__\<close> nor \<^verbatim>\<open>__len__\<close>.\<close>

definition response_truthy :: "response \<Rightarrow> bool" where
  "response_truthy r = True"

text \<open>
  The statements after the loop. The variables \<^verbatim>\<open>response\<close> and \<^verbatim>\<open>response_data\<close> are
  bound only once an exchange has got that far, so each is an option here.
\<close>

definition after_loop :: "response option \<times> py option \<Rightarrow> exn" where
  "after_loop vars =
     (case fst vars of
        None \<Rightarrow> UnboundLocalError ''response''
      | Some r \<Rightarrow>
          if response_truthy r then
            (case snd vars of
               None \<Rightarrow> UnboundLocalError ''response_data''
             | Some d \<Rightarrow> (case getitem d ''error'' of Inl e \<Rightarrow> e | Inr err \<Rightarrow> HTTPError r err))
          else RuntimeError ''This shouldn't happen.'')"

definition emit ::
  "event list \<Rightarrow> 'a \<times> event list \<Rightarrow> 'a \<times> event list" where
  "emit evs x = (fst x, evs @ snd x)"

text \<open>
  \<^verbatim>\<open>for tries in range(3):\<close> with its body. The list holds the indices still to run;
  every \<^verbatim>\<open>continue\<close>, and falling off the end of the body, goes on with the rest of it.
\<close>

fun request_loop ::
  "env \<Rightarrow> http_request \<Rightarrow> nat list
     \<Rightarrow> response option \<times> py option
     \<Rightarrow> (exn + py) \<times> event list" where
  "request_loop w rq [] vars = (Inl (after_loop vars), [])"
| "request_loop w rq (tries # later) vars =
     emit [Exchange rq]
       (case transport w tries of
          Raises e \<Rightarrow>
            if retried e tries then emit [Sleep (backoff tries)] (request_loop w rq later vars)
            else (Inl e, [])
        | RaisesAfterResponse r e \<Rightarrow>
            if retried e tries then
              emit [Sleep (backoff tries)] (request_loop w rq later (Some r, snd vars))
            else (Inl e, [])
        | Responds r d \<Rightarrow>
            if 200 \<le> status r \<and> status r < 300 then (Inr d, [])
            else if status r = 413 then
              (Inl (RequestEntityTooLarge r
                 (PDict [(''status'', PInt 413), (''message'', PStr ''Request entity too large.'')])), [])
            else if status r = 429 then
              (case headers r ''Retry-After'' of
                 None \<Rightarrow> (Inl (KeyError (PStr ''Retry-After'')), [])
               | Some h \<Rightarrow>
                   (case py_float w h of
                      None \<Rightarrow> (Inl (ValueError ''could not convert string to float''), [])
                    | Some retry_after \<Rightarrow>
                        emit [Sleep retry_after] (request_loop w rq later (Some r, Some d))))
            else if status r \<in> {500, 502, 503} then
              emit [Sleep (backoff tries)] (request_loop w rq later (Some r, Some d))
            else
              (case dict_get d ''error'' of
                 Inl e \<Rightarrow> (Inl e, [])
               | Inr err \<Rightarrow>
                   if truthy err then
                     (case EXCEPTION_MAPPING w (status r) of
                        None \<Rightarrow> (Inl (KeyError (PInt (status r))), [])
                      | Some cls \<Rightarrow> (Inl (MappedError cls r err), []))
                   else request_loop w rq later (Some r, Some d)))"

text \<open>
  The keyword arguments of \<^verbatim>\<open>self._session.request\<close>, the same at every attempt:
  \<^verbatim>\<open>data=json.dumps(data) if data else None\<close> keeps the value that is serialised.
\<close>

definition exchange_arguments ::
  "Route \<Rightarrow> credentials \<Rightarrow> (string \<times> py) list option
     \<Rightarrow> py \<Rightarrow> http_request" where
  "exchange_arguments route cr parameters data =
     \<lparr>req_method = http_method route,
      req_url = url route,
      req_headers = [(''Content-Type'', ''application/json''),
                     (''Authorization'', ''Bearer '' @ access_token cr)],
      req_params = parameters,
      req_data = (if truthy data then Some data else None)\<rparr>"

definition request ::
  "env \<Rightarrow> HTTPClient \<Rightarrow> Route \<Rightarrow> credentials option \<Rightarrow> (string \<times> py) list option \<Rightarrow> py
     \<Rightarrow> py result" where
  "request w c route credentials parameters data =
     (case ensure_session_exists c of
        (c1, ev1) \<Rightarrow>
          (case get_credentials w c1 credentials of
             (Inl e, c2, ev2) \<Rightarrow> (Inl e, c2, ev1 @ ev2)
           | (Inr cr, c2, ev2) \<Rightarrow>
               (case request_loop w (exchange_arguments route cr parameters data)
                       [0..<3] (None, None) of
                  (res, ev3) \<Rightarrow> (res, c2, ev1 @ ev2 @ ev3))))"

text \<open>
  \<^verbatim>\<open>await self.request(Route(m, p, **placeholders), parameters=..., data=...,
  credentials=...)\<close>: the route is built first, and its failure leaves before the engine
  is entered.
\<close>

definition request_route ::
  "env \<Rightarrow> HTTPClient \<Rightarrow> HTTPMethod \<Rightarrow> string \<Rightarrow> (string \<times> py) list \<Rightarrow> (string \<times> py) list option
     \<Rightarrow> py \<Rightarrow> credentials option \<Rightarrow> py result" where
  "request_route w c m p placeholders parameters data credentials =
     (case Route_init (format_other w) m p placeholders of
        Inl e \<Rightarrow> (Inl e, c, [])
      | Inr route \<Rightarrow> request w c route credentials parameters data)"

section \<open>Endpoint methods\<close>

text \<open>
  The endpoint methods build a \<^verbatim>\<open>parameters\<close> or \<^verbatim>\<open>data\<close> dict statement by statement.
  The recurring statements are named here; each takes the dict so far and returns it
  updated.
\<close>

text \<open>\<^verbatim>\<open>if v: d[key] = v\<close> for \<^verbatim>\<open>v: str | None\<close> and for \<^verbatim>\<open>v: int | None\<close>.\<close>

definition opt_str ::
  "string \<Rightarrow> string option \<Rightarrow> (string \<times> py) list
     \<Rightarrow> (string \<times> py) list" where
  "opt_str key v d = (case v of None \<Rightarrow> d | Some s \<Rightarrow> if s \<noteq> [] then setitem d key (PStr s) else d)"

definition opt_int ::
  "string \<Rightarrow> int option \<Rightarrow> (string \<times> py) list
     \<Rightarrow> (string \<times> py) list" where
  "opt_int key v d = (case v of None \<Rightarrow> d | Some i \<Rightarrow> if i \<noteq> 0 then setitem d key (PInt i) else d)"

text \<open>\<^verbatim>\<open>if xs: d[key] = ",".join(xs)\<close> for \<^verbatim>\<open>xs: Sequence[str] | None\<close>.\<close>

definition opt_joined ::
  "string \<Rightarrow> string list option \<Rightarrow> (string \<times> py) list
     \<Rightarrow> (string \<times> py) list" where
  "opt_joined key v d =
     (case v of None \<Rightarrow> d | Some xs \<Rightarrow> if xs \<noteq> [] then setitem d key (PStr (join '','' xs)) else d)"

text \<open>
  \<^verbatim>\<open>if time_range: d[key] = time_range.value\<close> for an optional enumeration member, given
  by its \<^verbatim>\<open>value\<close>; a member of a plain \<^verbatim>\<open>Enum\<close> is true.
\<close>

definition opt_member ::
  "string \<Rightarrow> string option \<Rightarrow> (string \<times> py) list
     \<Rightarrow> (string \<times> py) list" where
  "opt_member key v d = (case v of None \<Rightarrow> d | Some s \<Rightarrow> setitem d key (PStr s))"

text \<open>
  \<^verbatim>\<open>if limit: utils.limit_value("limit", limit, lo, hi); parameters["limit"] = limit\<close>
\<close>

definition opt_limit ::
  "env \<Rightarrow> int option \<Rightarrow> int \<Rightarrow> int
     \<Rightarrow> (string \<times> py) list \<Rightarrow> exn + (string \<times> py) list" where
  "opt_limit w limit lo hi d =
     (case limit of
        None \<Rightarrow> Inr d
      | Some n \<Rightarrow>
          if n \<noteq> 0 then
            (case limit_value w ''limit'' n lo hi of
               Some e \<Rightarrow> Inl e
             | None \<Rightarrow> Inr (setitem d ''limit'' (PInt n)))
          else Inr d)"

text \<open>\<^verbatim>\<open>query.replace(" ", "+")\<close>\<close>

definition replace_space :: "string \<Rightarrow> string" where
  "replace_space s = map (\<lambda>ch. if ch = CHR '' '' then CHR ''+'' else ch) s"

text \<open>\<^verbatim>\<open>xs or []\<close>\<close>

definition or_empty :: "'a list option \<Rightarrow> 'a list" where
  "or_empty xs = (case xs of None \<Rightarrow> [] | Some ys \<Rightarrow> ys)"

text \<open>
  The loop of \<^verbatim>\<open>get_recommendations\<close> over \<^verbatim>\<open>kwargs.items()\<close>, which stops at the first
  key that is not in \<^verbatim>\<open>values.VALID_SEED_KWARGS\<close>.
\<close>

fun add_kwargs ::
  "string list \<Rightarrow> (string \<times> int) list
     \<Rightarrow> (string \<times> py) list \<Rightarrow> exn + (string \<times> py) list" where
  "add_kwargs valid [] d = Inr d"
| "add_kwargs valid ((key, v) # kwargs) d =
     (if key \<notin> set valid then Inl (ValueError (CHR 0x27 # key @ CHR 0x27 # '' is not a valid kwarg.''))
      else add_kwargs valid kwargs (setitem d key (PInt v)))"

subsection \<open>Methods that bound the length of a list\<close>

definition get_albums ::
  "env \<Rightarrow> HTTPClient \<Rightarrow> string list \<Rightarrow> string option
     \<Rightarrow> credentials option \<Rightarrow> py result" where
  "get_albums w c ids market credentials =
     (if length ids > 20 then
        (Inl (ValueError (CHR 0x27 # ''ids' can not contain more than 20 ids.'')), c, [])
      else request_route w c GET ''/albums'' []
             (Some (opt_str ''market'' market [(''ids'', PStr (join '','' ids))])) PNone credentials)"

definition save_albums ::
  "env \<Rightarrow> HTTPClient \<Rightarrow> string list \<Rightarrow> credentials
     \<Rightarrow> py result" where
  "save_albums w c ids credentials =
     (if length ids > 50 then
        (Inl (ValueError (CHR 0x27 # ''ids' can not contain more than 50 ids.'')), c, [])
      else request_route w c PUT ''/me/albums'' []
             (Some [(''ids'', PStr (join '','' ids))]) PNone (Some credentials))"

definition remove_albums ::
  "env \<Rightarrow> HTTPClient \<Rightarrow> string list \<Rightarrow> credentials
     \<Rightarrow> py result" where
  "remove_albums w c ids credentials =
     (if length ids > 50 then
        (Inl (ValueError (CHR 0x27 # ''ids' can not contain more than 50 ids.'')), c, [])
      else request_route w c DELETE ''/me/albums'' []
             (Some [(''ids'', PStr (join '','' ids))]) PNone (Some credentials))"

definition check_saved_albums ::
  "env \<Rightarrow> HTTPClient \<Rightarrow> string list \<Rightarrow> credentials
     \<Rightarrow> py result" where
  "check_saved_albums w c ids credentials =
     (if length ids > 50 then
        (Inl (ValueError (CHR 0x27 # ''ids' can not contain more than 50 ids.'')), c, [])
      else request_route w c GET ''/me/albums/contains'' []
             (Some [(''ids'', PStr (join '','' ids))]) PNone (Some credentials))"

definition get_artists ::
  "env \<Rightarrow> HTTPClient \<Rightarrow> string list \<Rightarrow> string option
     \<Rightarrow> credentials option \<Rightarrow> py result" where
  "get_artists w c ids market credentials =
     (if length ids > 50 then
        (Inl (ValueError (CHR 0x27 # ''ids' can not contain more than 50 ids.'')), c, [])
      else request_route w c GET ''/artists'' []
             (Some (opt_str ''market'' market [(''ids'', PStr (join '','' ids))])) PNone credentials)"

definition get_shows ::
  "env \<Rightarrow> HTTPClient \<Rightarrow> string list \<Rightarrow> string option
     \<Rightarrow> credentials option \<Rightarrow> py result" where
  "get_shows w c ids market credentials =
     (if length ids > 50 then
        (Inl (ValueError (CHR 0x27 # ''ids' can not contain more than 50 ids.'')), c, [])
      else request_route w c GET ''/shows'' []
             (Some (opt_str ''market'' market [(''ids'', PStr (join '','' ids))])) PNone credentials)"

definition save_shows ::
  "env \<Rightarrow> HTTPClient \<Rightarrow> string list \<Rightarrow> credentials
     \<Rightarrow> py result" where
  "save_shows w c ids credentials =
     (if length ids > 50 then
        (Inl (ValueError (CHR 0x27 # ''ids' can not contain more than 50 ids.'')), c, [])
      else request_route w c PUT ''/me/shows'' []
             (Some [(''ids'', PStr (join '','' ids))]) PNone (Some credentials))"

definition remove_shows ::
  "env \<Rightarrow> HTTPClient \<Rightarrow> string list \<Rightarrow> credentials
     \<Rightarrow> py result" where
  "remove_shows w c ids credentials =
     (if length ids > 50 then
        (Inl (ValueError (CHR 0x27 # ''ids' can not contain more than 50 ids.'')), c, [])
      else request_route w c DELETE ''/me/shows'' []
             (Some [(''ids'', PStr (join '','' ids))]) PNone (Some credentials))"

definition check_saved_shows ::
  "env \<Rightarrow> HTTPClient \<Rightarrow> string list \<Rightarrow> credentials
     \<Rightarrow> py result" where
  "check_saved_shows w c ids credentials =
     (if length ids > 50 then
        (Inl (ValueError (CHR 0x27 # ''ids' can not contain more than 50 ids.'')), c, [])
      else request_route w c GET ''/me/shows/contains'' []
             (Some [(''ids'', PStr (join '','' ids))]) PNone (Some credentials))"

definition get_episodes ::
  "env \<Rightarrow> HTTPClient \<Rightarrow> string list \<Rightarrow> string option
     \<Rightarrow> credentials option \<Rightarrow> py result" where
  "get_episodes w c ids market credentials =
     (if length ids > 50 then
        (Inl (ValueError (CHR 0x27 # ''ids' can not contain more than 50 ids.'')), c, [])
      else request_route w c GET ''/episodes'' []
             (Some (opt_str ''market'' market [(''ids'', PStr (join '','' ids))])) PNone credentials)"

definition save_episodes ::
  "env \<Rightarrow> HTTPClient \<Rightarrow> string list \<Rightarrow> credentials
     \<Rightarrow> py result" where
  "save_episodes w c ids credentials =
     (if length ids > 50 then
        (Inl (ValueError (CHR 0x27 # ''ids' can not contain more than 50 ids.'')), c, [])
      else request_route w c PUT ''/me/episodes'' []
             (Some [(''ids'', PStr (join '','' ids))]) PNone (Some credentials))"

definition remove_episodes ::
  "env \<Rightarrow> HTTPClient \<Rightarrow> string list \<Rightarrow> credentials
     \<Rightarrow> py result" where
  "remove_episodes w c ids credentials =
     (if length ids > 50 then
        (Inl (ValueError (CHR 0x27 # ''ids' can not contain more than 50 ids.'')), c, [])
      else request_route w c DELETE ''/me/episodes'' []
             (Some [(''ids'', PStr (join '','' ids))]) PNone (Some credentials))"

definition check_saved_episodes ::
  "env \<Rightarrow> HTTPClient \<Rightarrow> string list \<Rightarrow> credentials
     \<Rightarrow> py result" where
  "check_saved_episodes w c ids credentials =
     (if length ids > 50 then
        (Inl (ValueError (CHR 0x27 # ''ids' can not contain more than 50 ids.'')), c, [])
      else request_route w c GET ''/me/episodes/contains'' []
             (Some [(''ids'', PStr (join '','' ids))]) PNone (Some credentials))"

definition get_tracks ::
  "env \<Rightarrow> HTTPClient \<Rightarrow> string list \<Rightarrow> string option
     \<Rightarrow> credentials option \<Rightarrow> py result" where
  "get_tracks w c ids market credentials =
     (if length ids > 50 then
        (Inl (ValueError (CHR 0x27 # ''ids' can not contain more than 50 ids.'')), c, [])
      else request_route w c GET ''/tracks'' []
             (Some (opt_str ''market'' market [(''ids'', PStr (join '','' ids))])) PNone credentials)"

definition save_tracks ::
  "env \<Rightarrow> HTTPClient \<Rightarrow> string list \<Rightarrow> credentials
     \<Rightarrow> py result" where
  "save_tracks w c ids credentials =
     (if length ids > 50 then
        (Inl (ValueError (CHR 0x27 # ''ids' can not contain more than 50 ids.'')), c, [])
      else request_route w c PUT ''/me/tracks'' []
             (Some [(''ids'', PStr (join '','' ids))]) PNone (Some credentials))"

definition remove_tracks ::
  "env \<Rightarrow> HTTPClient \<Rightarrow> string list \<Rightarrow> credentials
     \<Rightarrow> py result" where
  "remove_tracks w c ids credentials =
     (if length ids > 50 then
        (Inl (ValueError (CHR 0x27 # ''ids' can not contain more than 50 ids.'')), c, [])
      else request_route w c DELETE ''/me/tracks'' []
             (Some [(''ids'', PStr (join '','' ids))]) PNone (Some credentials))"

definition check_saved_tracks ::
  "env \<Rightarrow> HTTPClient \<Rightarrow> string list \<Rightarrow> credentials
     \<Rightarrow> py result" where
  "check_saved_tracks w c ids credentials =
     (if length ids > 50 then
        (Inl (ValueError (CHR 0x27 # ''ids' can not contain more than 50 ids.'')), c, [])
      else request_route w c GET ''/me/tracks/contains'' []
             (Some [(''ids'', PStr (join '','' ids))]) PNone (Some credentials))"

definition get_several_tracks_audio_features ::
  "env \<Rightarrow> HTTPClient \<Rightarrow> string list \<Rightarrow> credentials option
     \<Rightarrow> py result" where
  "get_several_tracks_audio_features w c ids credentials =
     (if length ids > 100 then
        (Inl (ValueError (CHR 0x27 # ''ids' can not contain more than 100 ids.'')), c, [])
      else request_route w c GET ''/audio-features'' []
             (Some [(''ids'', PStr (join '','' ids))]) PNone credentials)"

definition follow_users ::
  "env \<Rightarrow> HTTPClient \<Rightarrow> string list \<Rightarrow> credentials
     \<Rightarrow> py result" where
  "follow_users w c ids credentials =
     (if length ids > 50 then
        (Inl (ValueError (CHR 0x27 # ''ids' can not contain more than 50 ids.'')), c, [])
      else request_route w c PUT ''/me/following'' []
             (Some [(''type'', PStr ''user''), (''ids'', PStr (join '','' ids))]) PNone (Some credentials))"

definition follow_artists ::
  "env \<Rightarrow> HTTPClient \<Rightarrow> string list \<Rightarrow> credentials
     \<Rightarrow> py result" where
  "follow_artists w c ids credentials =
     (if length ids > 50 then
        (Inl (ValueError (CHR 0x27 # ''ids' can not contain more than 50 ids.'')), c, [])
      else request_route w c PUT ''/me/following'' []
             (Some [(''type'', PStr ''artist''), (''ids'', PStr (join '','' ids))]) PNone (Some credentials))"

definition unfollow_users ::
  "env \<Rightarrow> HTTPClient \<Rightarrow> string list \<Rightarrow> credentials
     \<Rightarrow> py result" where
  "unfollow_users w c ids credentials =
     (if length ids > 50 then
        (Inl (ValueError (CHR 0x27 # ''ids' can not contain more than 50 ids.'')), c, [])
      else request_route w c DELETE ''/me/following'' []
             (Some [(''type'', PStr ''user''), (''ids'', PStr (join '','' ids))]) PNone (Some credentials))"

definition unfollow_artists ::
  "env \<Rightarrow> HTTPClient \<Rightarrow> string list \<Rightarrow> credentials
     \<Rightarrow> py result" where
  "unfollow_artists w c ids credentials =
     (if length ids > 50 then
        (Inl (ValueError (CHR 0x27 # ''ids' can not contain more than 50 ids.'')), c, [])
      else request_route w c DELETE ''/me/following'' []
             (Some [(''type'', PStr ''artist''), (''ids'', PStr (join '','' ids))]) PNone (Some credentials))"

definition check_followed_users ::
  "env \<Rightarrow> HTTPClient \<Rightarrow> string list \<Rightarrow> credentials
     \<Rightarrow> py result" where
  "check_followed_users w c ids credentials =
     (if length ids > 50 then
        (Inl (ValueError (CHR 0x27 # ''ids' can not contain more than 50 ids.'')), c, [])
      else request_route w c GET ''/me/following/contains'' []
             (Some [(''type'', PStr ''user''), (''ids'', PStr (join '','' ids))]) PNone (Some credentials))"

definition check_followed_artists ::
  "env \<Rightarrow> HTTPClient \<Rightarrow> string list \<Rightarrow> credentials
     \<Rightarrow> py result" where
  "check_followed_artists w c ids credentials =
     (if length ids > 50 then
        (Inl (ValueError (CHR 0x27 # ''ids' can not contain more than 50 ids.'')), c, [])
      else request_route w c GET ''/me/following/contains'' []
             (Some [(''type'', PStr ''artist''), (''ids'', PStr (join '','' ids))]) PNone (Some credentials))"

definition check_if_users_follow_playlists ::
  "env \<Rightarrow> HTTPClient \<Rightarrow> string \<Rightarrow> string list
     \<Rightarrow> credentials option \<Rightarrow> py result" where
  "check_if_users_follow_playlists w c playlist_id user_ids credentials =
     (if length user_ids > 5 then
        (Inl (ValueError (CHR 0x27 # ''ids' can not contain more than 5 ids.'')), c, [])
      else request_route w c GET ''/playlists/{playlist_id}/followers/contains''
             [(''playlist_id'', PStr playlist_id)]
             (Some [(''ids'', PStr (join '','' user_ids))]) PNone credentials)"

definition add_items_to_playlist ::
  "env \<Rightarrow> HTTPClient \<Rightarrow> string \<Rightarrow> string list
     \<Rightarrow> int option \<Rightarrow> credentials \<Rightarrow> py result" where
  "add_items_to_playlist w c the_id uris position credentials =
     (if length uris > 100 then
        (Inl (ValueError (CHR 0x27 # ''uris' can not contain more than 100 URI's.'')), c, [])
      else request_route w c POST ''/playlists/{id}/tracks'' [(''id'', PStr the_id)] None
             (PDict (opt_int ''position'' position [(''uris'', PList (map PStr uris))]))
             (Some credentials))"

definition replace_playlist_items ::
  "env \<Rightarrow> HTTPClient \<Rightarrow> string \<Rightarrow> string list
     \<Rightarrow> credentials \<Rightarrow> py result" where
  "replace_playlist_items w c the_id uris credentials =
     (if length uris > 100 then
        (Inl (ValueError (CHR 0x27 # ''uris' can not contain more than 100 URI's.'')), c, [])
      else request_route w c PUT ''/playlists/{id}/tracks'' [(''id'', PStr the_id)] None
             (PDict [(''uris'', PList (map PStr uris))])
             (Some credentials))"

definition remove_items_from_playlist ::
  "env \<Rightarrow> HTTPClient \<Rightarrow> string \<Rightarrow> string list
     \<Rightarrow> string option \<Rightarrow> credentials \<Rightarrow> py result" where
  "remove_items_from_playlist w c the_id uris snapshot_id credentials =
     (if length uris > 100 then
        (Inl (ValueError (CHR 0x27 # ''uris' can not contain more than 100 URI's.'')), c, [])
      else request_route w c DELETE ''/playlists/{id}/tracks'' [(''id'', PStr the_id)] None
             (PDict (opt_str ''snapshot_id'' snapshot_id
                [(''tracks'', PList (map (\<lambda>uri. PDict [(''uri'', PStr uri)]) uris))]))
             (Some credentials))"

definition get_recommendations ::
  "env \<Rightarrow> HTTPClient \<Rightarrow> string list option \<Rightarrow> string list option \<Rightarrow> string list option
     \<Rightarrow> int option \<Rightarrow> string option \<Rightarrow> (string \<times> int) list \<Rightarrow> credentials option \<Rightarrow> py result" where
  "get_recommendations w c seed_artist_ids seed_genres seed_track_ids limit market kwargs credentials =
     (let seeds = length (or_empty seed_artist_ids @ or_empty seed_genres @ or_empty seed_track_ids) in
      if seeds < 1 \<or> seeds > 5 then
        (Inl (ValueError ''too many or no seed values provided. min 1, max 5.''), c, [])
      else
        (case add_kwargs (VALID_SEED_KWARGS w) kwargs
                (opt_joined ''seed_tracks'' seed_track_ids
                  (opt_joined ''seed_genres'' seed_genres
                    (opt_joined ''seed_artists'' seed_artist_ids []))) of
           Inl e \<Rightarrow> (Inl e, c, [])
         | Inr parameters \<Rightarrow>
             (case opt_limit w limit 1 100 parameters of
                Inl e \<Rightarrow> (Inl e, c, [])
              | Inr parameters \<Rightarrow>
                  request_route w c GET ''/recommendations'' []
                    (Some (opt_str ''market'' market parameters)) PNone credentials)))"

subsection \<open>Methods with an optional \<^verbatim>\<open>limit\<close>\<close>

definition get_album_tracks ::
  "env \<Rightarrow> HTTPClient \<Rightarrow> string \<Rightarrow> string option
     \<Rightarrow> int option \<Rightarrow> int option \<Rightarrow> credentials option
     \<Rightarrow> py result" where
  "get_album_tracks w c the_id market limit offset credentials =
     (case opt_limit w limit 1 50 (opt_str ''market'' market []) of
        Inl e \<Rightarrow> (Inl e, c, [])
      | Inr parameters \<Rightarrow>
          request_route w c GET ''/albums/{id}/tracks'' [(''id'', PStr the_id)]
            (Some (opt_int ''offset'' offset parameters)) PNone credentials)"

definition get_saved_albums ::
  "env \<Rightarrow> HTTPClient \<Rightarrow> string option \<Rightarrow> int option
     \<Rightarrow> int option \<Rightarrow> credentials \<Rightarrow> py result" where
  "get_saved_albums w c market limit offset credentials =
     (case opt_limit w limit 1 50 (opt_str ''market'' market []) of
        Inl e \<Rightarrow> (Inl e, c, [])
      | Inr parameters \<Rightarrow>
          request_route w c GET ''/me/albums'' []
            (Some (opt_int ''offset'' offset parameters)) PNone (Some credentials))"

definition get_new_releases ::
  "env \<Rightarrow> HTTPClient \<Rightarrow> string option \<Rightarrow> int option
     \<Rightarrow> int option \<Rightarrow> credentials option \<Rightarrow> py result" where
  "get_new_releases w c country limit offset credentials =
     (case opt_limit w limit 1 50 (opt_str ''country'' country []) of
        Inl e \<Rightarrow> (Inl e, c, [])
      | Inr parameters \<Rightarrow>
          request_route w c GET ''/browse/new-releases'' []
            (Some (opt_int ''offset'' offset parameters)) PNone credentials)"

definition get_artist_albums ::
  "env \<Rightarrow> HTTPClient \<Rightarrow> string \<Rightarrow> string option
     \<Rightarrow> int option \<Rightarrow> int option \<Rightarrow> string list option
     \<Rightarrow> credentials option \<Rightarrow> py result" where
  "get_artist_albums w c the_id market limit offset include_groups credentials =
     (case opt_limit w limit 1 50 (opt_str ''market'' market []) of
        Inl e \<Rightarrow> (Inl e, c, [])
      | Inr parameters \<Rightarrow>
          request_route w c GET ''/artists/{id}/albums'' [(''id'', PStr the_id)]
            (Some (opt_joined ''include_groups'' include_groups (opt_int ''offset'' offset parameters)))
            PNone credentials)"

definition get_show_episodes ::
  "env \<Rightarrow> HTTPClient \<Rightarrow> string \<Rightarrow> string option
     \<Rightarrow> int option \<Rightarrow> int option \<Rightarrow> credentials option
     \<Rightarrow> py result" where
  "get_show_episodes w c the_id market limit offset credentials =
     (case opt_limit w limit 1 50 (opt_str ''market'' market []) of
        Inl e \<Rightarrow> (Inl e, c, [])
      | Inr parameters \<Rightarrow>
          request_route w c GET ''/shows/{id}/episodes'' [(''id'', PStr the_id)]
            (Some (opt_int ''offset'' offset parameters)) PNone credentials)"

definition get_saved_shows ::
  "env \<Rightarrow> HTTPClient \<Rightarrow> int option \<Rightarrow> int option
     \<Rightarrow> credentials \<Rightarrow> py result" where
  "get_saved_shows w c limit offset credentials =
     (case opt_limit w limit 1 50 [] of
        Inl e \<Rightarrow> (Inl e, c, [])
      | Inr parameters \<Rightarrow>
          request_route w c GET ''/me/shows'' []
            (Some (opt_int ''offset'' offset parameters)) PNone (Some credentials))"

definition get_saved_episodes ::
  "env \<Rightarrow> HTTPClient \<Rightarrow> string option \<Rightarrow> int option
     \<Rightarrow> int option \<Rightarrow> credentials \<Rightarrow> py result" where
  "get_saved_episodes w c market limit offset credentials =
     (case opt_limit w limit 1 50 (opt_str ''market'' market []) of
        Inl e \<Rightarrow> (Inl e, c, [])
      | Inr parameters \<Rightarrow>
          request_route w c GET ''/me/episodes'' []
            (Some (opt_int ''offset'' offset parameters)) PNone (Some credentials))"

definition get_saved_tracks ::
  "env \<Rightarrow> HTTPClient \<Rightarrow> string option \<Rightarrow> int option
     \<Rightarrow> int option \<Rightarrow> credentials \<Rightarrow> py result" where
  "get_saved_tracks w c market limit offset credentials =
     (case opt_limit w limit 1 50 (opt_str ''market'' market []) of
        Inl e \<Rightarrow> (Inl e, c, [])
      | Inr parameters \<Rightarrow>
          request_route w c GET ''/me/tracks'' []
            (Some (opt_int ''offset'' offset parameters)) PNone (Some credentials))"

definition search ::
  "env \<Rightarrow> HTTPClient \<Rightarrow> string \<Rightarrow> string list
     \<Rightarrow> bool \<Rightarrow> string option \<Rightarrow> int option
     \<Rightarrow> int option \<Rightarrow> credentials option \<Rightarrow> py result" where
  "search w c query search_types include_external market limit offset credentials =
     (case opt_limit w limit 1 50 (opt_str ''market'' market
           ((if include_external then (\<lambda>d. setitem d ''include_external'' (PStr ''audio'')) else id)
              [(''q'', PStr (replace_space query)), (''type'', PStr (join '','' search_types))])) of
        Inl e \<Rightarrow> (Inl e, c, [])
      | Inr parameters \<Rightarrow>
          request_route w c GET ''/search'' []
            (Some (opt_int ''offset'' offset parameters)) PNone credentials)"

definition get_current_user_top_artists ::
  "env \<Rightarrow> HTTPClient \<Rightarrow> int option \<Rightarrow> int option
     \<Rightarrow> string option \<Rightarrow> credentials \<Rightarrow> py result" where
  "get_current_user_top_artists w c limit offset time_range credentials =
     (case opt_limit w limit 1 50 [] of
        Inl e \<Rightarrow> (Inl e, c, [])
      | Inr parameters \<Rightarrow>
          request_route w c GET ''/me/top/artists'' []
            (Some (opt_member ''time_range'' time_range (opt_int ''offset'' offset parameters)))
            PNone (Some credentials))"

definition get_current_user_top_tracks ::
  "env \<Rightarrow> HTTPClient \<Rightarrow> int option \<Rightarrow> int option
     \<Rightarrow> string option \<Rightarrow> credentials \<Rightarrow> py result" where
  "get_current_user_top_tracks w c limit offset time_range credentials =
     (case opt_limit w limit 1 50 [] of
        Inl e \<Rightarrow> (Inl e, c, [])
      | Inr parameters \<Rightarrow>
          request_route w c GET ''/me/top/tracks'' []
            (Some (opt_member ''time_range'' time_range (opt_int ''offset'' offset parameters)))
            PNone (Some credentials))"

definition get_followed_artists ::
  "env \<Rightarrow> HTTPClient \<Rightarrow> int option \<Rightarrow> string option
     \<Rightarrow> credentials \<Rightarrow> py result" where
  "get_followed_artists w c limit offset credentials =
     (case opt_limit w limit 1 50 [(''type'', PStr ''artist'')] of
        Inl e \<Rightarrow> (Inl e, c, [])
      | Inr parameters \<Rightarrow>
          request_route w c GET ''/me/following'' []
            (Some (opt_str ''offset'' offset parameters)) PNone (Some credentials))"

definition get_playlist_items ::
  "env \<Rightarrow> HTTPClient \<Rightarrow> string \<Rightarrow> string option
     \<Rightarrow> string option \<Rightarrow> int option \<Rightarrow> int option
     \<Rightarrow> credentials option \<Rightarrow> py result" where
  "get_playlist_items w c the_id market fields' limit offset credentials =
     (case opt_limit w limit 1 100
             (opt_str ''fields'' fields' (opt_str ''market'' market [(''additional_types'', PStr ''track'')])) of
        Inl e \<Rightarrow> (Inl e, c, [])
      | Inr parameters \<Rightarrow>
          request_route w c GET ''/playlists/{id}/tracks'' [(''id'', PStr the_id)]
            (Some (opt_int ''offset'' offset parameters)) PNone credentials)"

definition get_current_user_playlists ::
  "env \<Rightarrow> HTTPClient \<Rightarrow> int option \<Rightarrow> int option
     \<Rightarrow> credentials \<Rightarrow> py result" where
  "get_current_user_playlists w c limit offset credentials =
     (case opt_limit w limit 1 50 [] of
        Inl e \<Rightarrow> (Inl e, c, [])
      | Inr parameters \<Rightarrow>
          request_route w c GET ''/me/playlists'' []
            (Some (opt_int ''offset'' offset parameters)) PNone (Some credentials))"

definition get_user_playlists ::
  "env \<Rightarrow> HTTPClient \<Rightarrow> string \<Rightarrow> int option
     \<Rightarrow> int option \<Rightarrow> credentials option \<Rightarrow> py result" where
  "get_user_playlists w c the_id limit offset credentials =
     (case opt_limit w limit 1 50 [] of
        Inl e \<Rightarrow> (Inl e, c, [])
      | Inr parameters \<Rightarrow>
          request_route w c GET ''/users/{id}/playlists'' [(''id'', PStr the_id)]
            (Some (opt_int ''offset'' offset parameters)) PNone credentials)"

definition get_featured_playlists ::
  "env \<Rightarrow> HTTPClient \<Rightarrow> string option \<Rightarrow> string option
     \<Rightarrow> string option \<Rightarrow> int option \<Rightarrow> int option
     \<Rightarrow> credentials option \<Rightarrow> py result" where
  "get_featured_playlists w c country locale timestamp limit offset credentials =
     (case opt_limit w limit 1 50
             (opt_str ''timestamp'' timestamp (opt_str ''locale'' locale (opt_str ''country'' country []))) of
        Inl e \<Rightarrow> (Inl e, c, [])
      | Inr parameters \<Rightarrow>
          request_route w c GET ''/browse/featured-playlists'' []
            (Some (opt_int ''offset'' offset parameters)) PNone credentials)"

definition get_category_playlists ::
  "env \<Rightarrow> HTTPClient \<Rightarrow> string \<Rightarrow> string option
     \<Rightarrow> int option \<Rightarrow> int option \<Rightarrow> credentials option
     \<Rightarrow> py result" where
  "get_category_playlists w c the_id country limit offset credentials =
     (case opt_limit w limit 1 50 (opt_str ''country'' country []) of
        Inl e \<Rightarrow> (Inl e, c, [])
      | Inr parameters \<Rightarrow>
          request_route w c GET ''/browse/categories/{id}/playlists'' [(''id'', PStr the_id)]
            (Some (opt_int ''offset'' offset parameters)) PNone credentials)"

definition get_categories ::
  "env \<Rightarrow> HTTPClient \<Rightarrow> string option \<Rightarrow> string option
     \<Rightarrow> int option \<Rightarrow> int option \<Rightarrow> credentials option
     \<Rightarrow> py result" where
  "get_categories w c country locale limit offset credentials =
     (case opt_limit w limit 1 50 (opt_str ''locale'' locale (opt_str ''country'' country [])) of
        Inl e \<Rightarrow> (Inl e, c, [])
      | Inr parameters \<Rightarrow>
          request_route w c GET ''/browse/categories'' []
            (Some (opt_int ''offset'' offset parameters)) PNone credentials)"

text \<open>\<^verbatim>\<open>get_recently_played_tracks\<close> has the guard on \<^verbatim>\<open>limit\<close> but no range check.\<close>

definition get_recently_played_tracks ::
  "env \<Rightarrow> HTTPClient \<Rightarrow> int option \<Rightarrow> int option
     \<Rightarrow> int option \<Rightarrow> credentials \<Rightarrow> py result" where
  "get_recently_played_tracks w c limit before after credentials =
     (if truthy_int before \<and> truthy_int after then
        (Inl (ValueError (CHR 0x27 # ''before' and 'after' can not both be specified.'')), c, [])
      else request_route w c GET ''/me/player/recently-played'' []
             (Some (opt_int ''after'' after (opt_int ''before'' before (opt_int ''limit'' limit []))))
             PNone (Some credentials))"

subsection \<open>The two families of methods\<close>

text \<open>
  A call of a method that bounds a list, without the list: the method and its other
  arguments. \<open>call_ids\<close> makes the call, \<open>maximum\<close> is the bound that the method's error
  message documents. \<^verbatim>\<open>get_recommendations\<close> bounds the total of its three seed lists, so
  it appears once for each.
\<close>

datatype ids_call =
    GetAlbums "string option" "credentials option"
  | SaveAlbums credentials
  | RemoveAlbums credentials
  | CheckSavedAlbums credentials
  | GetArtists "string option" "credentials option"
  | GetShows "string option" "credentials option"
  | SaveShows credentials
  | RemoveShows credentials
  | CheckSavedShows credentials
  | GetEpisodes "string option" "credentials option"
  | SaveEpisodes credentials
  | RemoveEpisodes credentials
  | CheckSavedEpisodes credentials
  | GetTracks "string option" "credentials option"
  | SaveTracks credentials
  | RemoveTracks credentials
  | CheckSavedTracks credentials
  | GetSeveralTracksAudioFeatures "credentials option"
  | CheckIfUsersFollowPlaylists string "credentials option"
  | FollowUsers credentials
  | FollowArtists credentials
  | UnfollowUsers credentials
  | UnfollowArtists credentials
  | CheckFollowedUsers credentials
  | CheckFollowedArtists credentials
  | AddItemsToPlaylist string "int option" credentials
  | ReplacePlaylistItems string credentials
  | RemoveItemsFromPlaylist string "string option" credentials
  | RecommendationsByArtists "string list option" "string list option" "int option"
      "string option" "(string \<times> int) list" "credentials option"
  | RecommendationsByGenres "string list option" "string list option" "int option"
      "string option" "(string \<times> int) list" "credentials option"
  | RecommendationsByTracks "string list option" "string list option" "int option"
      "string option" "(string \<times> int) list" "credentials option"

fun call_ids ::
  "env \<Rightarrow> HTTPClient \<Rightarrow> ids_call \<Rightarrow> string list
     \<Rightarrow> py result" where
  "call_ids w c (GetAlbums market cr) ids = get_albums w c ids market cr"
| "call_ids w c (SaveAlbums cr) ids = save_albums w c ids cr"
| "call_ids w c (RemoveAlbums cr) ids = remove_albums w c ids cr"
| "call_ids w c (CheckSavedAlbums cr) ids = check_saved_albums w c ids cr"
| "call_ids w c (GetArtists market cr) ids = get_artists w c ids market cr"
| "call_ids w c (GetShows market cr) ids = get_shows w c ids market cr"
| "call_ids w c (SaveShows cr) ids = save_shows w c ids cr"
| "call_ids w c (RemoveShows cr) ids = remove_shows w c ids cr"
| "call_ids w c (CheckSavedShows cr) ids = check_saved_shows w c ids cr"
| "call_ids w c (GetEpisodes market cr) ids = get_episodes w c ids market cr"
| "call_ids w c (SaveEpisodes cr) ids = save_episodes w c ids cr"
| "call_ids w c (RemoveEpisodes cr) ids = remove_episodes w c ids cr"
| "call_ids w c (CheckSavedEpisodes cr) ids = check_saved_episodes w c ids cr"
| "call_ids w c (GetTracks market cr) ids = get_tracks w c ids market cr"
| "call_ids w c (SaveTracks cr) ids = save_tracks w c ids cr"
| "call_ids w c (RemoveTracks cr) ids = remove_tracks w c ids cr"
| "call_ids w c (CheckSavedTracks cr) ids = check_saved_tracks w c ids cr"
| "call_ids w c (GetSeveralTracksAudioFeatures cr) ids = get_several_tracks_audio_features w c ids cr"
| "call_ids w c (CheckIfUsersFollowPlaylists playlist_id cr) ids =
     check_if_users_follow_playlists w c playlist_id ids cr"
| "call_ids w c (FollowUsers cr) ids = follow_users w c ids cr"
| "call_ids w c (FollowArtists cr) ids = follow_artists w c ids cr"
| "call_ids w c (UnfollowUsers cr) ids = unfollow_users w c ids cr"
| "call_ids w c (UnfollowArtists cr) ids = unfollow_artists w c ids cr"
| "call_ids w c (CheckFollowedUsers cr) ids = check_followed_users w c ids cr"
| "call_ids w c (CheckFollowedArtists cr) ids = check_followed_artists w c ids cr"
| "call_ids w c (AddItemsToPlaylist the_id position cr) ids =
     add_items_to_playlist w c the_id ids position cr"
| "call_ids w c (ReplacePlaylistItems the_id cr) ids = replace_playlist_items w c the_id ids cr"
| "call_ids w c (RemoveItemsFromPlaylist the_id snapshot_id cr) ids =
     remove_items_from_playlist w c the_id ids snapshot_id cr"
| "call_ids w c (RecommendationsByArtists seed_genres seed_track_ids limit market kwargs cr) ids =
     get_recommendations w c (Some ids) seed_genres seed_track_ids limit market kwargs cr"
| "call_ids w c (RecommendationsByGenres seed_artist_ids seed_track_ids limit market kwargs cr) ids =
     get_recommendations w c seed_artist_ids (Some ids) seed_track_ids limit market kwargs cr"
| "call_ids w c (RecommendationsByTracks seed_artist_ids seed_genres limit market kwargs cr) ids =
     get_recommendations w c seed_artist_ids seed_genres (Some ids) limit market kwargs cr"

fun maximum :: "ids_call \<Rightarrow> nat" where
  "maximum (GetAlbums market cr) = 20"
| "maximum (GetSeveralTracksAudioFeatures cr) = 100"
| "maximum (CheckIfUsersFollowPlaylists playlist_id cr) = 5"
| "maximum (AddItemsToPlaylist the_id position cr) = 100"
| "maximum (ReplacePlaylistItems the_id cr) = 100"
| "maximum (RemoveItemsFromPlaylist the_id snapshot_id cr) = 100"
| "maximum (RecommendationsByArtists a b limit market kwargs cr) = 5"
| "maximum (RecommendationsByGenres a b limit market kwargs cr) = 5"
| "maximum (RecommendationsByTracks a b limit market kwargs cr) = 5"
| "maximum other = 50"

text \<open>
  A call of a method with an optional \<^verbatim>\<open>limit\<close>, without the limit. Python binds a
  keyword \<^verbatim>\<open>limit\<close> to the parameter of that name, so the \<^verbatim>\<open>**kwargs\<close> of
  \<^verbatim>\<open>get_recommendations\<close> never hold the key \<^verbatim>\<open>limit\<close>: \<open>well_called\<close> says so.
\<close>

datatype limit_call =
    GetAlbumTracks string "string option" "int option" "credentials option"
  | GetSavedAlbums "string option" "int option" credentials
  | GetNewReleases "string option" "int option" "credentials option"
  | GetArtistAlbums string "string option" "int option" "string list option" "credentials option"
  | GetShowEpisodes string "string option" "int option" "credentials option"
  | GetSavedShows "int option" credentials
  | GetSavedEpisodes "string option" "int option" credentials
  | GetSavedTracks "string option" "int option" credentials
  | GetRecommendations "string list option" "string list option" "string list option"
      "string option" "(string \<times> int) list" "credentials option"
  | Search string "string list" bool "string option" "int option" "credentials option"
  | GetCurrentUserTopArtists "int option" "string option" credentials
  | GetCurrentUserTopTracks "int option" "string option" credentials
  | GetFollowedArtists "string option" credentials
  | GetPlaylistItems string "string option" "string option" "int option" "credentials option"
  | GetCurrentUserPlaylists "int option" credentials
  | GetUserPlaylists string "int option" "credentials option"
  | GetFeaturedPlaylists "string option" "string option" "string option" "int option"
      "credentials option"
  | GetCategoryPlaylists string "string option" "int option" "credentials option"
  | GetCategories "string option" "string option" "int option" "credentials option"
  | GetRecentlyPlayedTracks "int option" "int option" credentials

fun call_limit ::
  "env \<Rightarrow> HTTPClient \<Rightarrow> limit_call \<Rightarrow> int option
     \<Rightarrow> py result" where
  "call_limit w c (GetAlbumTracks the_id market offset cr) limit =
     get_album_tracks w c the_id market limit offset cr"
| "call_limit w c (GetSavedAlbums market offset cr) limit =
     get_saved_albums w c market limit offset cr"
| "call_limit w c (GetNewReleases country offset cr) limit =
     get_new_releases w c country limit offset cr"
| "call_limit w c (GetArtistAlbums the_id market offset include_groups cr) limit =
     get_artist_albums w c the_id market limit offset include_groups cr"
| "call_limit w c (GetShowEpisodes the_id market offset cr) limit =
     get_show_episodes w c the_id market limit offset cr"
| "call_limit w c (GetSavedShows offset cr) limit = get_saved_shows w c limit offset cr"
| "call_limit w c (GetSavedEpisodes market offset cr) limit =
     get_saved_episodes w c market limit offset cr"
| "call_limit w c (GetSavedTracks market offset cr) limit =
     get_saved_tracks w c market limit offset cr"
| "call_limit w c (GetRecommendations seed_artist_ids seed_genres seed_track_ids market kwargs cr) limit =
     get_recommendations w c seed_artist_ids seed_genres seed_track_ids limit market kwargs cr"
| "call_limit w c (Search query search_types include_external market offset cr) limit =
     search w c query search_types include_external market limit offset cr"
| "call_limit w c (GetCurrentUserTopArtists offset time_range cr) limit =
     get_current_user_top_artists w c limit offset time_range cr"
| "call_limit w c (GetCurrentUserTopTracks offset time_range cr) limit =
     get_current_user_top_tracks w c limit offset time_range cr"
| "call_limit w c (GetFollowedArtists offset cr) limit = get_followed_artists w c limit offset cr"
| "call_limit w c (GetPlaylistItems the_id market fields' offset cr) limit =
     get_playlist_items w c the_id market fields' limit offset cr"
| "call_limit w c (GetCurrentUserPlaylists offset cr) limit =
     get_current_user_playlists w c limit offset cr"
| "call_limit w c (GetUserPlaylists the_id offset cr) limit =
     get_user_playlists w c the_id limit offset cr"
| "call_limit w c (GetFeaturedPlaylists country locale timestamp offset cr) limit =
     get_featured_playlists w c country locale timestamp limit offset cr"
| "call_limit w c (GetCategoryPlaylists the_id country offset cr) limit =
     get_category_playlists w c the_id country limit offset cr"
| "call_limit w c (GetCategories country locale offset cr) limit =
     get_categories w c country locale limit offset cr"
| "call_limit w c (GetRecentlyPlayedTracks before after cr) limit =
     get_recently_played_tracks w c limit before after cr"

fun well_called :: "limit_call \<Rightarrow> bool" where
  "well_called (GetRecommendations seed_artist_ids seed_genres seed_track_ids market kwargs cr) =
     (''limit'' \<notin> keys kwargs)"
| "well_called other = True"

section \<open>Reading a trace\<close>

fun slept :: "event list \<Rightarrow> real list" where
  "slept [] = []"
| "slept (Sleep d # evs) = d # slept evs"
| "slept (ev # evs) = slept evs"

fun exchanges :: "event list \<Rightarrow> http_request list" where
  "exchanges [] = []"
| "exchanges (Exchange rq # evs) = rq # exchanges evs"
| "exchanges (ev # evs) = exchanges evs"

fun refreshed :: "event list \<Rightarrow> credentials list" where
  "refreshed [] = []"
| "refreshed (Refresh cr # evs) = cr # refreshed evs"
| "refreshed (ev # evs) = refreshed evs"

section \<open>A simulated transport\<close>

text \<open>
  Collaborators for the concrete runs below: a transport that plays a given script, an
  application credential that is valid, a refresh that succeeds, a status table with the
  entries the documentation names, and a \<^verbatim>\<open>limit_value\<close> that enforces its range.
\<close>

definition simulated :: "(nat \<Rightarrow> outcome) \<Rightarrow> env" where
  "simulated script =
     \<lparr>transport = script,
      from_client_secret = (\<lambda>cid secret. Inr \<lparr>access_token = ''app-token'', is_expired = False\<rparr>),
      refresh = (\<lambda>cr. Inr (cr\<lparr>access_token := ''fresh-token'', is_expired := False\<rparr>)),
      EXCEPTION_MAPPING =
        map_of [(400, ''BadRequest''), (401, ''Unauthorized''), (403, ''Forbidden''), (404, ''NotFound'')],
      py_float = map_of [(''0.01'', 1 / 100), (''1'', 1), (''2'', 2)],
      limit_value =
        (\<lambda>name v lo hi. if v < lo \<or> hi < v then Some (ValueError (name @ '' out of range'')) else None),
      VALID_SEED_KWARGS = [''target_energy''],
      format_other =
        (\<lambda>v. case v of PNone \<Rightarrow> ''None'' | PBool b \<Rightarrow> (if b then ''True'' else ''False'')
              | PInt i \<Rightarrow> (if i = 7 then ''7'' else ''int'') | _ \<Rightarrow> ''object'')\<rparr>"

definition new_client :: HTTPClient where
  "new_client = \<lparr>client_id = ''id'', client_secret = ''secret'', session = None, client_credentials = None\<rparr>"

definition answer :: "int \<Rightarrow> (string \<times> string) list \<Rightarrow> response" where
  "answer st hs = \<lparr>status = st, headers = map_of hs\<rparr>"

definition me_route :: Route where
  "me_route = \<lparr>http_method = GET, path = ''/me'', url = BASE_URL @ ''/me''\<rparr>"

definition app_credentials :: credentials where
  "app_credentials = \<lparr>access_token = ''app-token'', is_expired = False\<rparr>"

definition ready_client :: HTTPClient where
  "ready_client = \<lparr>client_id = ''id'', client_secret = ''secret'',
     session = Some \<lparr>closed = False\<rparr>, client_credentials = Some app_credentials\<rparr>"

definition me_request :: http_request where
  "me_request = exchange_arguments me_route app_credentials None PNone"

definition unavailable :: py where
  "unavailable = PDict [(''error'', PDict [(''status'', PInt 503), (''message'', PStr ''Service unavailable'')])]"

definition limited :: py where
  "limited = PDict [(''error'', PDict [(''status'', PInt 429), (''message'', PStr ''API rate limit exceeded'')])]"

definition profile :: py where
  "profile = PDict [(''id'', PStr ''user'')]"

definition stale :: credentials where
  "stale = \<lparr>access_token = ''old-token'', is_expired = True\<rparr>"

definition fresh :: credentials where
  "fresh = \<lparr>access_token = ''fresh-token'', is_expired = False\<rparr>"

section \<open>Properties\<close>

subsection \<open>The simulated collaborators\<close>

text \<open>The simulated collaborators resolve the application credential of a new client.\<close>

lemma simulated_credentials:
  "get_credentials (simulated script) (fst (ensure_session_exists new_client)) None =
     (Inr app_credentials, ready_client, [FromClientSecret ''id'' ''secret''])"
  by (simp add: get_credentials_def ensure_session_exists_def new_client_def simulated_def
      app_credentials_def ready_client_def effective_def)

lemma simulated_session: "snd (ensure_session_exists new_client) = [NewSession]"
  by (simp add: ensure_session_exists_def new_client_def)

lemma simulated_fields:
  "transport (simulated script) = script"
  "py_float (simulated script) = map_of [(''0.01'', 1 / 100), (''1'', 1), (''2'', 2)]"
  "EXCEPTION_MAPPING (simulated script) =
     map_of [(400, ''BadRequest''), (401, ''Unauthorized''), (403, ''Forbidden''), (404, ''NotFound'')]"
  by (simp_all add: simulated_def)

lemma simulated_more:
  "from_client_secret (simulated script) = (\<lambda>cid secret. Inr app_credentials)"
  "refresh (simulated script) = (\<lambda>cr. Inr (cr\<lparr>access_token := ''fresh-token'', is_expired := False\<rparr>))"
  "format_other (simulated script) =
     (\<lambda>v. case v of PNone \<Rightarrow> ''None'' | PBool b \<Rightarrow> (if b then ''True'' else ''False'')
              | PInt i \<Rightarrow> (if i = 7 then ''7'' else ''int'') | _ \<Rightarrow> ''object'')"
  "limit_value (simulated script) =
     (\<lambda>name v lo hi. if v < lo \<or> hi < v then Some (ValueError (name @ '' out of range'')) else None)"
  by (simp_all add: simulated_def app_credentials_def)

subsection \<open>Routes without placeholder arguments\<close>

text \<open>
  Claim C10. A route built with no placeholder arguments performs no substitution: its
  url is the base URL followed by the path exactly as given, braces included, and its
  construction cannot fail.
\<close>

theorem route_without_parameters:
  "Route_init fv m p [] = Inr \<lparr>http_method = m, path = p, url = BASE_URL @ p\<rparr>"
  by (simp add: Route_init_def)

subsection \<open>Routes with placeholder arguments\<close>

lemma format_literal:
  "plain_text s \<Longrightarrow>
   format_map fv (s @ t) kw = (case format_map fv t kw of Inl e \<Rightarrow> Inl e | Inr out \<Rightarrow> Inr (s @ out))"
  by (induction s) (auto simp: plain_text_def split: sum.splits)

lemma scan_plain:
  "set n \<inter> set ''{}[]:!.'' = {} \<Longrightarrow> scan_field (n @ CHR ''}'' # t) = Inr (n, t)"
  by (induction n) auto

lemma get_plain:
  "plain_name n \<Longrightarrow>
   get_field fv n kw =
     (case map_of kw n of None \<Rightarrow> Inl (KeyError (PStr n)) | Some v \<Rightarrow> Inr (format_value fv v))"
  by (auto simp: get_field_def plain_name_def)

lemma format_field:
  assumes "plain_name n"
  shows "format_map fv (CHR ''{'' # n @ CHR ''}'' # t) kw =
     (case map_of kw n of
        None \<Rightarrow> Inl (KeyError (PStr n))
      | Some v \<Rightarrow> (case format_map fv t kw of Inl e \<Rightarrow> Inl e | Inr out \<Rightarrow> Inr (format_value fv v @ out)))"
proof -
  from assms obtain a n' where n: "n = a # n'" by (cases n) (auto simp: plain_name_def)
  with assms have a: "a \<noteq> CHR ''{''" by (auto simp: plain_name_def)
  have scan: "scan_field (a # n' @ CHR ''}'' # t) = Inr (n, t)"
    using scan_plain[of n t] assms n by (simp add: plain_name_def)
  show ?thesis
    using a scan get_plain[OF assms, of fv kw] unfolding n
    by (simp del: scan_field.simps split: option.splits sum.splits)
qed

text \<open>The comprehension succeeds exactly on encodable arguments.\<close>

lemma quote_encodable:
  "encodable parameters \<Longrightarrow> quote_parameters parameters = Inr (percent_encoded parameters)"
proof (induction parameters)
  case Nil
  then show ?case by (simp add: percent_encoded_def)
next
  case (Cons kv parameters)
  obtain key v where kv: "kv = (key, v)" by (cases kv)
  from Cons.prems kv have v: "encodable_value v" and rest: "encodable parameters"
    by (simp_all add: encodable_def)
  from v have "quote_value v = Inr (case v of PStr s \<Rightarrow> PStr (quote_from_bytes s) | _ \<Rightarrow> v)"
    by (cases v) (simp_all add: quote_def)
  with Cons.IH[OF rest] kv show ?case by (simp add: percent_encoded_def)
qed

lemma quote_not_encodable:
  "\<not> encodable parameters \<Longrightarrow>
   \<exists>key s. (key, PStr s) \<in> set parameters \<and> has_surrogate s \<and>
           quote_parameters parameters = Inl (UnicodeEncodeError s)"
proof (induction parameters)
  case Nil
  then show ?case by (simp add: encodable_def)
next
  case (Cons kv parameters)
  obtain key v where kv: "kv = (key, v)" by (cases kv)
  show ?case
  proof (cases "encodable_value v")
    case True
    then have q: "quote_value v = Inr (case v of PStr s \<Rightarrow> PStr (quote_from_bytes s) | _ \<Rightarrow> v)"
      by (cases v) (simp_all add: quote_def)
    from True Cons.prems kv have "\<not> encodable parameters" by (simp add: encodable_def)
    from Cons.IH[OF this] obtain key' s where
      "(key', PStr s) \<in> set parameters" "has_surrogate s"
      "quote_parameters parameters = Inl (UnicodeEncodeError s)"
      by blast
    with q kv show ?thesis by (intro exI[of _ key'] exI[of _ s]) simp
  next
    case False
    then obtain s where s: "v = PStr s" "has_surrogate s" by (cases v) simp_all
    then have "quote_parameters (kv # parameters) = Inl (UnicodeEncodeError s)"
      using kv by (simp add: quote_def)
    with s kv show ?thesis by (intro exI[of _ key] exI[of _ s]) simp
  qed
qed

lemma encoded_lookup:
  "map_of (percent_encoded parameters) n =
     map_option (\<lambda>v. case v of PStr s \<Rightarrow> PStr (quote_from_bytes s) | _ \<Rightarrow> v) (map_of parameters n)"
  by (simp add: percent_encoded_def map_of_map)

lemma encoded_value:
  "format_value fv (case v of PStr s \<Rightarrow> PStr (quote_from_bytes s) | _ \<Rightarrow> v) =
     (case v of PStr s \<Rightarrow> quote_from_bytes s | _ \<Rightarrow> fv v)"
  by (cases v) (simp_all add: format_value_def)

lemma format_render_present:
  "list_all plain ps \<Longrightarrow> set (names ps) \<subseteq> keys parameters \<Longrightarrow>
   format_map fv (render ps) (percent_encoded parameters) = Inr (concat (map (fill fv parameters) ps))"
proof (induction ps rule: render.induct)
  case 1
  then show ?case by simp
next
  case (2 s ps)
  then show ?case by (simp add: format_literal)
next
  case (3 n ps)
  then have "n \<in> fst ` set parameters" by (simp add: keys_def)
  then obtain v where "map_of parameters n = Some v"
    by (cases "map_of parameters n") (auto simp: map_of_eq_None_iff)
  with 3 show ?case
    by (simp add: format_field encoded_lookup encoded_value del: format_map.simps(2))
qed

lemma format_render_absent:
  "list_all plain ps \<Longrightarrow> \<not> set (names ps) \<subseteq> keys parameters \<Longrightarrow>
   \<exists>n. n \<in> set (names ps) \<and> n \<notin> keys parameters \<and>
       format_map fv (render ps) (percent_encoded parameters) = Inl (KeyError (PStr n))"
proof (induction ps rule: render.induct)
  case 1
  then show ?case by simp
next
  case (2 s ps)
  then show ?case by (auto simp: format_literal)
next
  case (3 n ps)
  show ?case
  proof (cases "map_of parameters n")
    case None
    then have "n \<notin> keys parameters" by (simp add: keys_def map_of_eq_None_iff)
    moreover have "format_map fv (render (Placeholder n # ps)) (percent_encoded parameters) =
        Inl (KeyError (PStr n))"
      using None 3(2) by (simp add: format_field encoded_lookup del: format_map.simps(2))
    ultimately show ?thesis by (intro exI[of _ n]) simp
  next
    case (Some v)
    then have "n \<in> keys parameters" by (metis keys_def map_of_eq_None_iff option.distinct(1))
    with 3 obtain n' where n': "n' \<in> set (names ps)" "n' \<notin> keys parameters"
      "format_map fv (render ps) (percent_encoded parameters) = Inl (KeyError (PStr n'))"
      by auto
    have "format_map fv (render (Placeholder n # ps)) (percent_encoded parameters) =
        Inl (KeyError (PStr n'))"
      using Some 3(2) n'(3) by (simp add: format_field encoded_lookup del: format_map.simps(2))
    with n'(1,2) show ?thesis by (intro exI[of _ n']) simp
  qed
qed

lemma base_plain: "plain_text BASE_URL"
  by (simp add: plain_text_def BASE_URL_def)

text \<open>
  Claim C7, as the code has it. Take a route built with at least one placeholder argument
  and a template of plain pieces. When some string among the arguments holds a lone
  surrogate, construction fails with the \<^verbatim>\<open>UnicodeEncodeError\<close> of percent-encoding such a
  string, whether the template names it or not. Otherwise, when every placeholder name is
  a key of the arguments, the url is the base URL followed by the template with each
  placeholder replaced, a string value percent-encoded and any other value as \<^verbatim>\<open>format\<close>
  prints it; and when some name is not a key, construction fails with the \<^verbatim>\<open>KeyError\<close> of
  such a name. So for these templates and encodable arguments construction fails exactly
  when a placeholder is missing.
\<close>

theorem route_substitutes_placeholders:
  assumes "parameters \<noteq> []" and "list_all plain ps"
  shows "(\<not> encodable parameters \<longrightarrow>
            (\<exists>key s. (key, PStr s) \<in> set parameters \<and> has_surrogate s \<and>
                 Route_init fv m (render ps) parameters = Inl (UnicodeEncodeError s))) \<and>
         (encodable parameters \<and> set (names ps) \<subseteq> keys parameters \<longrightarrow>
            Route_init fv m (render ps) parameters =
              Inr \<lparr>http_method = m, path = render ps,
                   url = BASE_URL @ concat (map (fill fv parameters) ps)\<rparr>) \<and>
         (encodable parameters \<and> \<not> set (names ps) \<subseteq> keys parameters \<longrightarrow>
            (\<exists>n. n \<in> set (names ps) \<and> n \<notin> keys parameters \<and>
                 Route_init fv m (render ps) parameters = Inl (KeyError (PStr n))))"
proof (cases "encodable parameters")
  case False
  from quote_not_encodable[OF False] obtain key s where
    "(key, PStr s) \<in> set parameters" "has_surrogate s"
    "quote_parameters parameters = Inl (UnicodeEncodeError s)"
    by blast
  with assms(1) False show ?thesis by (auto simp: Route_init_def)
next
  case True
  note q = quote_encodable[OF True]
  show ?thesis
  proof (cases "set (names ps) \<subseteq> keys parameters")
    case present: True
    with assms(1) True q format_render_present[OF assms(2) present, of fv] show ?thesis
      by (simp add: Route_init_def format_literal[OF base_plain])
  next
    case absent: False
    from format_render_absent[OF assms(2) absent, of fv] obtain n where
      "n \<in> set (names ps)" "n \<notin> keys parameters"
      "format_map fv (render ps) (percent_encoded parameters) = Inl (KeyError (PStr n))"
      by blast
    with assms(1) True q absent show ?thesis
      by (auto simp: Route_init_def format_literal[OF base_plain])
  qed
qed

text \<open>
  A route with a string outside ASCII (\<^verbatim>\<open>j\<close>, e acute, \<^verbatim>\<open>s\<close>, a space) and a number; a route
  whose placeholder is missing; and a route with an argument that is the lone surrogate
  U+D800.
\<close>

theorem route_substitutes_placeholders_witness:
  "Route_init (format_other (simulated (\<lambda>n. Raises Unmodelled))) GET ''/users/{user_id}/playlists/{n}''
     [(''user_id'', PStr [CHR ''j'', CHR 0xC3, CHR 0xA9, CHR ''s'', CHR '' '']), (''n'', PInt 7)] =
     Inr \<lparr>http_method = GET, path = ''/users/{user_id}/playlists/{n}'',
          url = ''https://api.spotify.com/v1/users/j%C3%A9s%20/playlists/7''\<rparr> \<and>
   Route_init (format_other (simulated (\<lambda>n. Raises Unmodelled))) GET ''/albums/{id}/tracks''
     [(''market'', PStr ''GB'')] = Inl (KeyError (PStr ''id'')) \<and>
   Route_init (format_other (simulated (\<lambda>n. Raises Unmodelled))) GET ''/albums/{id}/tracks''
     [(''id'', PStr [CHR 0xED, CHR 0xA0, CHR 0x80])] =
     Inl (UnicodeEncodeError [CHR 0xED, CHR 0xA0, CHR 0x80])"
  using route_substitutes_placeholders[
      where parameters="[(''user_id'', PStr [CHR ''j'', CHR 0xC3, CHR 0xA9, CHR ''s'', CHR '' '']), (''n'', PInt 7)]"
      and ps="[Literal ''/users/'', Placeholder ''user_id'', Literal ''/playlists/'', Placeholder ''n'']"
      and fv="format_other (simulated (\<lambda>n. Raises Unmodelled))" and m=GET]
    route_substitutes_placeholders[where parameters="[(''market'', PStr ''GB'')]"
      and ps="[Literal ''/albums/'', Placeholder ''id'', Literal ''/tracks'']"
      and fv="format_other (simulated (\<lambda>n. Raises Unmodelled))" and m=GET]
    route_substitutes_placeholders[where parameters="[(''id'', PStr [CHR 0xED, CHR 0xA0, CHR 0x80])]"
      and ps="[Literal ''/albums/'', Placeholder ''id'', Literal ''/tracks'']"
      and fv="format_other (simulated (\<lambda>n. Raises Unmodelled))" and m=GET]
  by (simp add: plain_text_def plain_name_def is_digit_def is_ascii_def keys_def simulated_more
      BASE_URL_def encodable_def quote_from_bytes_def quote_char_def always_safe_def percent_def
      hexdigit_def)

text \<open>
  A template with a closing brace on its own names no placeholder, and yet a route built
  from it with an encodable placeholder argument fails: \<^verbatim>\<open>format_map\<close> refuses the brace.
\<close>

theorem stray_brace_fails_without_placeholder:
  "CHR ''{'' \<notin> set ''/albums/}'' \<and>
   \<not> has_surrogate ''4aawyAB9vmqN3uQ7FjRGTy'' \<and>
   Route_init (\<lambda>v. ''None'') GET ''/albums/}'' [(''id'', PStr ''4aawyAB9vmqN3uQ7FjRGTy'')] =
     Inl (ValueError ''Single '}' encountered in format string'')"
  by (simp add: Route_init_def BASE_URL_def quote_def)

subsection \<open>The retry loop\<close>

lemma range_3: "[0..<3] = [0, Suc 0, 2]"
  by (simp add: upt_rec)

lemma backoff_values: "backoff 0 = 1" "backoff (Suc 0) = 3" "backoff 2 = 5"
  by (simp_all add: backoff_def)

text \<open>Once the credentials are resolved, a call is its loop.\<close>

lemma request_unfold:
  assumes "get_credentials w (fst (ensure_session_exists c)) credentials = (Inr cr, c', evs)"
  shows "request w c route credentials parameters data =
     (fst (request_loop w (exchange_arguments route cr parameters data) [0..<3] (None, None)), c',
      snd (ensure_session_exists c) @ evs @
      snd (request_loop w (exchange_arguments route cr parameters data) [0..<3] (None, None)))"
  using assms by (cases "ensure_session_exists c") (auto simp: request_def split: prod.splits)

lemma loop_transient:
  assumes "transport w tries = Responds r d" and "status r \<in> {500, 502, 503}"
  shows "request_loop w rq (tries # later) vars =
           emit [Exchange rq, Sleep (backoff tries)] (request_loop w rq later (Some r, Some d))"
  using assms by (auto simp: emit_def)

lemma loop_rate_limited:
  assumes "transport w tries = Responds r d" and "status r = 429"
    and "headers r ''Retry-After'' = Some h" and "py_float w h = Some t"
  shows "request_loop w rq (tries # later) vars =
           emit [Exchange rq, Sleep t] (request_loop w rq later (Some r, Some d))"
  using assms by (simp add: emit_def)

lemma loop_success:
  assumes "transport w tries = Responds r d" and "200 \<le> status r" and "status r < 300"
  shows "request_loop w rq (tries # later) vars = (Inr d, [Exchange rq])"
  using assms by (simp add: emit_def)

text \<open>
  Claim C1, as the code has it. When the transport answers 500, 502 or 503 at each of
  the three attempts, and the last decoded body is an object with an \<^verbatim>\<open>error\<close> member,
  the call raises \<^verbatim>\<open>HTTPError\<close> built from the last response and that member after
  exactly three exchanges. Every attempt is followed by its backoff sleep, the third one
  too: the sleeps are 1, 3 and 5 seconds.
\<close>

theorem transient_errors_exhaust:
  assumes "get_credentials w (fst (ensure_session_exists c)) credentials = (Inr cr, c', evs)"
    and "transport w 0 = Responds r0 d0" and "status r0 \<in> {500, 502, 503}"
    and "transport w 1 = Responds r1 d1" and "status r1 \<in> {500, 502, 503}"
    and "transport w 2 = Responds r2 (PDict body)" and "status r2 \<in> {500, 502, 503}"
    and "map_of body ''error'' = Some err"
  shows "request w c route credentials parameters data =
     (Inl (HTTPError r2 err), c',
      snd (ensure_session_exists c) @ evs @
      [Exchange (exchange_arguments route cr parameters data), Sleep 1,
       Exchange (exchange_arguments route cr parameters data), Sleep 3,
       Exchange (exchange_arguments route cr parameters data), Sleep 5])"
proof -
  have "request_loop w rq [0, Suc 0, 2] (None, None) =
      (Inl (HTTPError r2 err), [Exchange rq, Sleep 1, Exchange rq, Sleep 3, Exchange rq, Sleep 5])" for rq
    using assms(2-)
    by (simp add: loop_transient[where tries=0] loop_transient[where tries="Suc 0"]
        loop_transient[where tries=2] emit_def backoff_values after_loop_def response_truthy_def
        getitem_def del: request_loop.simps(2))
  then show ?thesis
    by (simp add: request_unfold[OF assms(1)] range_3)
qed

text \<open>The run of the documentation: 503 three times, with the API's error body.\<close>

theorem transient_errors_exhaust_witness:
  "request (simulated (\<lambda>n. Responds (answer 503 []) unavailable)) new_client me_route None None PNone =
   (Inl (HTTPError (answer 503 []) (PDict [(''status'', PInt 503), (''message'', PStr ''Service unavailable'')])),
    ready_client,
    [NewSession, FromClientSecret ''id'' ''secret'',
     Exchange me_request, Sleep 1, Exchange me_request, Sleep 3, Exchange me_request, Sleep 5])"
  using transient_errors_exhaust[OF simulated_credentials,
      of "\<lambda>n. Responds (answer 503 []) unavailable" "answer 503 []" unavailable
         "answer 503 []" unavailable "answer 503 []"
         "[(''error'', PDict [(''status'', PInt 503), (''message'', PStr ''Service unavailable'')])]"
         "PDict [(''status'', PInt 503), (''message'', PStr ''Service unavailable'')]"
         me_route None PNone]
  by (simp add: simulated_fields simulated_session answer_def me_request_def unavailable_def)

text \<open>
  In that run the sleeps are not only those of 1 and 3 seconds: the third failure is
  followed by a sleep of 5 seconds before the raise.
\<close>

theorem transient_errors_sleep_three_times:
  "slept (snd (snd (request (simulated (\<lambda>n. Responds (answer 503 []) unavailable))
      new_client me_route None None PNone))) = [1, 3, 5]"
  by (simp add: request_unfold[OF simulated_credentials] range_3 simulated_fields simulated_session
      emit_def backoff_values answer_def unavailable_def)

text \<open>
  Claim C2, as the code has it. A 429 response uses up an iteration of the loop like any
  other. Take \<open>k\<close> responses with status 429, each with a \<^verbatim>\<open>Retry-After\<close> header that
  \<^verbatim>\<open>float\<close> accepts, followed by a 2xx response. For \<open>k < 3\<close> the call sleeps for each of
  the \<open>k\<close> durations in turn and returns the decoded 2xx body. For \<open>k \<ge> 3\<close> the call makes
  three exchanges, sleeps after each of them, and raises what the statements after the
  loop raise for the third response.
\<close>

theorem rate_limit_retries_share_the_budget:
  assumes "get_credentials w (fst (ensure_session_exists c)) credentials = (Inr cr, c', evs)"
    and "\<And>n. n < k \<Longrightarrow> transport w n = Responds (r n) (d n) \<and> status (r n) = 429 \<and>
            headers (r n) ''Retry-After'' = Some (h n) \<and> py_float w (h n) = Some (t n)"
    and "transport w k = Responds ok body" and "200 \<le> status ok" and "status ok < 300"
  shows "request w c route credentials parameters data =
     (if k < 3 then
        (Inr body, c',
         snd (ensure_session_exists c) @ evs @
         concat (map (\<lambda>n. [Exchange (exchange_arguments route cr parameters data), Sleep (t n)]) [0..<k]) @
         [Exchange (exchange_arguments route cr parameters data)])
      else
        (Inl (after_loop (Some (r 2), Some (d 2))), c',
         snd (ensure_session_exists c) @ evs @
         concat (map (\<lambda>n. [Exchange (exchange_arguments route cr parameters data), Sleep (t n)]) [0..<3])))"
proof -
  let ?rq = "exchange_arguments route cr parameters data"
  have limited: "request_loop w ?rq (n # later) vars =
      emit [Exchange ?rq, Sleep (t n)] (request_loop w ?rq later (Some (r n), Some (d n)))"
    if "n < k" for n later vars
    using assms(2)[OF that] by (intro loop_rate_limited) auto
  have finished: "request_loop w ?rq (k # later) vars = (Inr body, [Exchange ?rq])" for later vars
    using assms(3-5) by (rule loop_success)
  consider "k = 0" | "k = Suc 0" | "k = 2" | "3 \<le> k" by linarith
  then have "request_loop w ?rq [0, Suc 0, 2] (None, None) =
      (if k < 3 then
         (Inr body, concat (map (\<lambda>n. [Exchange ?rq, Sleep (t n)]) [0..<k]) @ [Exchange ?rq])
       else
         (Inl (after_loop (Some (r 2), Some (d 2))),
          concat (map (\<lambda>n. [Exchange ?rq, Sleep (t n)]) [0..<3])))"
  proof cases
    case 1
    then show ?thesis using finished by simp
  next
    case 2
    then show ?thesis using finished limited[of 0] by (simp add: emit_def)
  next
    case 3
    then show ?thesis using finished limited[of 0] limited[of "Suc 0"] by (simp add: emit_def upt_rec)
  next
    case 4
    then have "0 < k" "Suc 0 < k" "2 < k" by simp_all
    from limited[OF this(1)] limited[OF this(2)] limited[OF this(3)] 4 show ?thesis
      by (simp add: emit_def range_3 del: request_loop.simps(2))
  qed
  then show ?thesis
    by (simp add: request_unfold[OF assms(1)] range_3)
qed

text \<open>
  Two rate-limit answers with \<^verbatim>\<open>Retry-After: 0.01\<close> and then success; and five rate-limit
  answers, of which the call sees three.
\<close>

theorem rate_limit_retries_share_the_budget_witness:
  "request (simulated (\<lambda>n. if n < 2 then Responds (answer 429 [(''Retry-After'', ''0.01'')]) limited
                             else Responds (answer 200 []) profile))
     new_client me_route None None PNone =
   (Inr profile, ready_client,
    [NewSession, FromClientSecret ''id'' ''secret'',
     Exchange me_request, Sleep (1 / 100), Exchange me_request, Sleep (1 / 100), Exchange me_request]) \<and>
   request (simulated (\<lambda>n. if n < 5 then Responds (answer 429 [(''Retry-After'', ''2'')]) limited
                             else Responds (answer 200 []) profile))
     new_client me_route None None PNone =
   (Inl (HTTPError (answer 429 [(''Retry-After'', ''2'')])
          (PDict [(''status'', PInt 429), (''message'', PStr ''API rate limit exceeded'')])),
    ready_client,
    [NewSession, FromClientSecret ''id'' ''secret'',
     Exchange me_request, Sleep 2, Exchange me_request, Sleep 2, Exchange me_request, Sleep 2])"
  using rate_limit_retries_share_the_budget[
      OF simulated_credentials[of "\<lambda>n. if n < 2 then Responds (answer 429 [(''Retry-After'', ''0.01'')]) limited
                             else Responds (answer 200 []) profile"],
      where k=2 and r="\<lambda>n. answer 429 [(''Retry-After'', ''0.01'')]" and d="\<lambda>n. limited" and h="\<lambda>n. ''0.01''"
        and t="\<lambda>n. 1 / 100" and ok="answer 200 []" and body=profile and route=me_route
        and parameters=None and data=PNone]
    rate_limit_retries_share_the_budget[
      OF simulated_credentials[of "\<lambda>n. if n < 5 then Responds (answer 429 [(''Retry-After'', ''2'')]) limited
                             else Responds (answer 200 []) profile"],
      where k=5 and r="\<lambda>n. answer 429 [(''Retry-After'', ''2'')]" and d="\<lambda>n. limited" and h="\<lambda>n. ''2''"
        and t="\<lambda>n. 2" and ok="answer 200 []" and body=profile and route=me_route
        and parameters=None and data=PNone]
  by (simp add: simulated_fields simulated_session answer_def me_request_def upt_rec limited_def
      after_loop_def response_truthy_def getitem_def)

text \<open>
  Three rate-limit answers followed by a success that is never fetched: after the third
  sleep the loop is over and the call raises \<^verbatim>\<open>HTTPError\<close>.
\<close>

theorem three_rate_limits_exhaust_the_loop:
  "request (simulated (\<lambda>n. if n < 3 then Responds (answer 429 [(''Retry-After'', ''1'')]) limited
                             else Responds (answer 200 []) profile))
     new_client me_route None None PNone =
   (Inl (HTTPError (answer 429 [(''Retry-After'', ''1'')])
          (PDict [(''status'', PInt 429), (''message'', PStr ''API rate limit exceeded'')])),
    ready_client,
    [NewSession, FromClientSecret ''id'' ''secret'',
     Exchange me_request, Sleep 1, Exchange me_request, Sleep 1, Exchange me_request, Sleep 1])"
  by (simp add: request_unfold[OF simulated_credentials] range_3 simulated_fields simulated_session
      emit_def answer_def limited_def me_request_def after_loop_def response_truthy_def getitem_def)

lemma loop_connection_error:
  assumes "transport w tries = Raises (OSError (Some errno))" and "errno \<in> {54, 10054}"
    and "tries < 4"
  shows "request_loop w rq (tries # later) vars =
           emit [Exchange rq, Sleep (backoff tries)] (request_loop w rq later vars)"
  using assms by (auto simp: emit_def retried_def)

text \<open>
  Claim C3, as the code runs. When the transport raises \<^verbatim>\<open>OSError\<close> with errno 54 or 10054
  at each of the three attempts, the guard \<^verbatim>\<open>tries < 4\<close> holds at every index, so the
  handler never re-raises: the call sleeps 1, 3 and 5 seconds, leaves the loop with
  \<^verbatim>\<open>response\<close> unbound, and the statement after the loop raises \<^verbatim>\<open>UnboundLocalError\<close>
  in place of the connection error.
\<close>

theorem connection_errors_end_unbound:
  assumes "get_credentials w (fst (ensure_session_exists c)) credentials = (Inr cr, c', evs)"
    and "\<And>n. n < 3 \<Longrightarrow> \<exists>errno. transport w n = Raises (OSError (Some errno)) \<and> errno \<in> {54, 10054}"
  shows "request w c route credentials parameters data =
     (Inl (UnboundLocalError ''response''), c',
      snd (ensure_session_exists c) @ evs @
      [Exchange (exchange_arguments route cr parameters data), Sleep 1,
       Exchange (exchange_arguments route cr parameters data), Sleep 3,
       Exchange (exchange_arguments route cr parameters data), Sleep 5])"
proof -
  let ?rq = "exchange_arguments route cr parameters data"
  have step: "request_loop w ?rq (n # later) vars =
      emit [Exchange ?rq, Sleep (backoff n)] (request_loop w ?rq later vars)"
    if "n < 3" for n later vars
  proof -
    from assms(2)[OF that] obtain errno
      where "transport w n = Raises (OSError (Some errno))" and "errno \<in> {54, 10054}"
      by blast
    moreover have "n < 4" using that by simp
    ultimately show ?thesis by (rule loop_connection_error)
  qed
  have "request_loop w ?rq [0, Suc 0, 2] (None, None) =
      (Inl (UnboundLocalError ''response''),
       [Exchange ?rq, Sleep 1, Exchange ?rq, Sleep 3, Exchange ?rq, Sleep 5])"
    by (simp add: step emit_def backoff_values after_loop_def del: request_loop.simps(2))
  then show ?thesis
    by (simp add: request_unfold[OF assms(1)] range_3)
qed

text \<open>A connection that is reset (errno 54) at every attempt.\<close>

theorem connection_errors_end_unbound_witness:
  "request (simulated (\<lambda>n. Raises (OSError (Some 54)))) new_client me_route None None PNone =
   (Inl (UnboundLocalError ''response''), ready_client,
    [NewSession, FromClientSecret ''id'' ''secret'',
     Exchange me_request, Sleep 1, Exchange me_request, Sleep 3, Exchange me_request, Sleep 5])"
  using connection_errors_end_unbound[OF simulated_credentials[of "\<lambda>n. Raises (OSError (Some 54))"],
      where route=me_route and parameters=None and data=PNone]
  by (simp add: simulated_fields simulated_session me_request_def)

text \<open>
  Claim C4. When the first answer has status 413, the call raises
  \<^verbatim>\<open>RequestEntityTooLarge\<close> at once: one exchange, no sleep, and a payload whose status
  and message are written in the code, whatever the body was.
\<close>

theorem payload_too_large_immediately:
  assumes "get_credentials w (fst (ensure_session_exists c)) credentials = (Inr cr, c', evs)"
    and "transport w 0 = Responds r d" and "status r = 413"
  shows "request w c route credentials parameters data =
     (Inl (RequestEntityTooLarge r
        (PDict [(''status'', PInt 413), (''message'', PStr ''Request entity too large.'')])),
      c',
      snd (ensure_session_exists c) @ evs @ [Exchange (exchange_arguments route cr parameters data)])"
  using assms(2,3) by (simp add: request_unfold[OF assms(1)] range_3 emit_def)

theorem payload_too_large_immediately_witness:
  "request (simulated (\<lambda>n. Responds (answer 413 []) (PStr ''Request Entity Too Large'')))
     new_client me_route None None PNone =
   (Inl (RequestEntityTooLarge (answer 413 [])
      (PDict [(''status'', PInt 413), (''message'', PStr ''Request entity too large.'')])),
    ready_client, [NewSession, FromClientSecret ''id'' ''secret'', Exchange me_request])"
  using payload_too_large_immediately[OF simulated_credentials,
      of "\<lambda>n. Responds (answer 413 []) (PStr ''Request Entity Too Large'')"
         "answer 413 []" "PStr ''Request Entity Too Large''" me_route None PNone]
  by (simp add: simulated_fields simulated_session answer_def me_request_def)

text \<open>
  Claim C5, as the code has it. When the first answer has a status outside 200..299 that
  is none of 413, 429, 500, 502 and 503, its decoded body is an object whose \<^verbatim>\<open>error\<close>
  member is true in Python's sense (not \<^verbatim>\<open>None\<close>, zero or empty), and the status is a
  key of \<^verbatim>\<open>EXCEPTION_MAPPING\<close>, the call raises the class the table gives, built from the
  response and that member, after one exchange and no sleep.
\<close>

theorem error_body_raises_mapped_kind:
  assumes "get_credentials w (fst (ensure_session_exists c)) credentials = (Inr cr, c', evs)"
    and "transport w 0 = Responds r (PDict body)"
    and "\<not> (200 \<le> status r \<and> status r < 300)"
    and "status r \<notin> {413, 429, 500, 502, 503}"
    and "map_of body ''error'' = Some err" and "truthy err"
    and "EXCEPTION_MAPPING w (status r) = Some cls"
  shows "request w c route credentials parameters data =
     (Inl (MappedError cls r err), c',
      snd (ensure_session_exists c) @ evs @ [Exchange (exchange_arguments route cr parameters data)])"
  using assms(2-) by (simp add: request_unfold[OF assms(1)] range_3 emit_def dict_get_def)

text \<open>The run of the documentation: 404 with a message.\<close>

theorem error_body_raises_mapped_kind_witness:
  "request (simulated (\<lambda>n. Responds (answer 404 []) (PDict [(''error'', PDict [(''message'', PStr ''not found'')])])))
     new_client me_route None None PNone =
   (Inl (MappedError ''NotFound'' (answer 404 []) (PDict [(''message'', PStr ''not found'')])),
    ready_client, [NewSession, FromClientSecret ''id'' ''secret'', Exchange me_request])"
  using error_body_raises_mapped_kind[OF simulated_credentials,
      of "\<lambda>n. Responds (answer 404 []) (PDict [(''error'', PDict [(''message'', PStr ''not found'')])])"
         "answer 404 []" "[(''error'', PDict [(''message'', PStr ''not found'')])]"
         "PDict [(''message'', PStr ''not found'')]" "''NotFound''" me_route None PNone]
  by (simp add: simulated_fields simulated_session answer_def me_request_def)

text \<open>
  A 404 whose body has an \<^verbatim>\<open>error\<close> member that is an empty object: the member is there,
  but the guard \<^verbatim>\<open>if error := response_data.get("error")\<close> is false, so nothing is raised
  at the first attempt. The call makes three exchanges and ends with \<^verbatim>\<open>HTTPError\<close>.
\<close>

theorem empty_error_field_is_not_raised:
  "request (simulated (\<lambda>n. Responds (answer 404 []) (PDict [(''error'', PDict [])])))
     new_client me_route None None PNone =
   (Inl (HTTPError (answer 404 []) (PDict [])), ready_client,
    [NewSession, FromClientSecret ''id'' ''secret'', Exchange me_request, Exchange me_request, Exchange me_request])"
  by (simp add: request_unfold[OF simulated_credentials] range_3 simulated_fields simulated_session
      emit_def answer_def me_request_def after_loop_def response_truthy_def getitem_def dict_get_def)

subsection \<open>Credentials\<close>

lemma loop_exchanges:
  "Exchange rq' \<in> set (snd (request_loop w rq tries vars)) \<Longrightarrow> rq' = rq"
  by (induction tries arbitrary: vars)
     (auto simp: emit_def split: outcome.splits option.splits sum.splits if_splits)

lemma session_events: "set (snd (ensure_session_exists c)) \<subseteq> {NewSession}"
  by (auto simp: ensure_session_exists_def split: option.splits if_splits)

lemma credentials_events: "Exchange rq \<notin> set (snd (snd (get_credentials w c credentials)))"
  by (auto simp: get_credentials_def Let_def split: option.splits sum.splits if_splits)

lemma request_exchanges:
  assumes "Exchange rq \<in> set (snd (snd (request w c route credentials parameters data)))"
  shows "\<exists>cr. rq = exchange_arguments route cr parameters data"
proof -
  obtain c1 ev1 where s: "ensure_session_exists c = (c1, ev1)" by (cases "ensure_session_exists c")
  obtain res c2 ev2 where g: "get_credentials w c1 credentials = (res, c2, ev2)"
    by (cases "get_credentials w c1 credentials")
  have 1: "Exchange rq \<notin> set ev1" using session_events[of c] s by auto
  have 2: "Exchange rq \<notin> set ev2" using credentials_events[of rq w c1 credentials] g by simp
  show ?thesis
  proof (cases res)
    case (Inl e)
    then show ?thesis using assms s g 1 2 by (simp add: request_def)
  next
    case (Inr cr)
    then have "Exchange rq \<in> set (snd (request_loop w (exchange_arguments route cr parameters data) [0..<3] (None, None)))"
      using assms s g 1 2 by (auto simp: request_def split: prod.splits)
    then show ?thesis using loop_exchanges by blast
  qed
qed

lemma refreshed_append: "refreshed (xs @ ys) = refreshed xs @ refreshed ys"
  by (induction xs rule: refreshed.induct) simp_all

lemma refreshed_none: "(\<And>x. Refresh x \<notin> set evs) \<Longrightarrow> refreshed evs = []"
  by (induction evs rule: refreshed.induct) auto

lemma loop_refreshes: "Refresh x \<notin> set (snd (request_loop w rq tries vars))"
  by (induction tries arbitrary: vars)
     (auto simp: emit_def split: outcome.splits option.splits sum.splits if_splits)

lemma credentials_resolved:
  assumes "client_credentials c = Some fb \<or>
           client_credentials c = None \<and> from_client_secret w (client_id c) (client_secret c) = Inr fb"
  shows "fst (get_credentials w c credentials) =
           (if is_expired (effective credentials fb) then refresh w (effective credentials fb)
            else Inr (effective credentials fb))"
    and "refreshed (snd (snd (get_credentials w c credentials))) =
           (if is_expired (effective credentials fb) then [effective credentials fb] else [])"
  using assms
  by (auto simp: get_credentials_def Let_def refreshed_append split: sum.splits)

lemma session_keeps_credentials:
  "client_credentials (fst (ensure_session_exists c)) = client_credentials c"
  "client_id (fst (ensure_session_exists c)) = client_id c"
  "client_secret (fst (ensure_session_exists c)) = client_secret c"
  by (auto simp: ensure_session_exists_def split: option.splits)

lemma split_after_prefix:
  assumes "xs @ ys = pre @ e # post" and "e \<notin> set xs"
  shows "\<exists>mid. pre = xs @ mid \<and> ys = mid @ e # post"
  using assms by (induction xs arbitrary: pre) (auto simp: Cons_eq_append_conv)

lemma request_exchange_position:
  assumes fb: "client_credentials c = Some fb \<or>
           client_credentials c = None \<and> from_client_secret w (client_id c) (client_secret c) = Inr fb"
    and ev: "snd (snd (request w c route credentials parameters data)) = pre @ Exchange rq # post"
  shows "refreshed pre = (if is_expired (effective credentials fb) then [effective credentials fb] else []) \<and>
         (\<exists>cr. fst (get_credentials w c credentials) = Inr cr \<and>
               rq = exchange_arguments route cr parameters data)"
proof -
  obtain c1 ev1 where s: "ensure_session_exists c = (c1, ev1)" by (cases "ensure_session_exists c")
  obtain res c2 ev2 where g: "get_credentials w c1 credentials = (res, c2, ev2)"
    by (cases "get_credentials w c1 credentials")
  have fb1: "client_credentials c1 = Some fb \<or>
           client_credentials c1 = None \<and> from_client_secret w (client_id c1) (client_secret c1) = Inr fb"
    using fb session_keeps_credentials[of c] s by simp
  have same: "fst (get_credentials w c credentials) = res"
    using credentials_resolved(1)[OF fb] credentials_resolved(1)[OF fb1, of credentials] g by simp
  have r2: "refreshed ev2 = (if is_expired (effective credentials fb) then [effective credentials fb] else [])"
    using credentials_resolved(2)[OF fb1, of credentials] g by simp
  have r1: "refreshed ev1 = []"
    using session_events[of c] s by (intro refreshed_none) auto
  have no: "Exchange rq \<notin> set (ev1 @ ev2)"
    using session_events[of c] s credentials_events[of rq w c1 credentials] g by auto
  show ?thesis
  proof (cases res)
    case (Inl e)
    then have "snd (snd (request w c route credentials parameters data)) = ev1 @ ev2"
      using s g by (simp add: request_def)
    then show ?thesis using ev no by (metis in_set_conv_decomp)
  next
    case (Inr cr)
    define ev3 where "ev3 = snd (request_loop w (exchange_arguments route cr parameters data) [0..<3] (None, None))"
    have "snd (snd (request w c route credentials parameters data)) = (ev1 @ ev2) @ ev3"
      using s g Inr by (simp add: request_def ev3_def split: prod.splits)
    then obtain mid where mid: "pre = (ev1 @ ev2) @ mid" "ev3 = mid @ Exchange rq # post"
      using split_after_prefix[OF _ no] ev by metis
    have "refreshed ev3 = []"
      unfolding ev3_def by (intro refreshed_none) (rule loop_refreshes)
    then have "refreshed mid = []" using mid(2) by (simp add: refreshed_append)
    moreover have "rq = exchange_arguments route cr parameters data"
      using mid(2) loop_exchanges[of rq w "exchange_arguments route cr parameters data"]
      unfolding ev3_def by (metis in_set_conv_decomp)
    ultimately show ?thesis using mid(1) r1 r2 same Inr by (simp add: refreshed_append)
  qed
qed

text \<open>
  Claim C6. Let the fallback be the cached application credential, or the one that
  \<^verbatim>\<open>from_client_secret\<close> returns when none is cached, and let the effective credential be
  the caller's if given, else the fallback. Then \<^verbatim>\<open>_get_credentials\<close> returns the result
  of \<^verbatim>\<open>refresh\<close> on the effective credential, called exactly once, when that credential
  reports itself expired, and returns it without any refresh when it does not. In
  \<^verbatim>\<open>request\<close>, every exchange comes after that one refresh and carries the token of the
  credential that \<^verbatim>\<open>_get_credentials\<close> returned.
\<close>

theorem expired_credentials_are_refreshed_first:
  assumes "client_credentials c = Some fb \<or>
           client_credentials c = None \<and> from_client_secret w (client_id c) (client_secret c) = Inr fb"
  shows "fst (get_credentials w c credentials) =
           (if is_expired (effective credentials fb) then refresh w (effective credentials fb)
            else Inr (effective credentials fb)) \<and>
         refreshed (snd (snd (get_credentials w c credentials))) =
           (if is_expired (effective credentials fb) then [effective credentials fb] else []) \<and>
         (\<forall>rq pre post.
            snd (snd (request w c route credentials parameters data)) = pre @ Exchange rq # post \<longrightarrow>
            refreshed pre = (if is_expired (effective credentials fb) then [effective credentials fb] else []) \<and>
            (\<exists>cr. fst (get_credentials w c credentials) = Inr cr \<and>
                  rq = exchange_arguments route cr parameters data))"
  using credentials_resolved[OF assms] request_exchange_position[OF assms] by blast

text \<open>A caller's expired credential on a new client.\<close>

theorem expired_credentials_are_refreshed_first_witness:
  "get_credentials (simulated (\<lambda>n. Responds (answer 200 []) profile)) new_client (Some stale) =
     (Inr fresh, new_client\<lparr>client_credentials := Some app_credentials\<rparr>,
      [FromClientSecret ''id'' ''secret'', Refresh stale]) \<and>
   request (simulated (\<lambda>n. Responds (answer 200 []) profile)) new_client me_route (Some stale) None PNone =
     (Inr profile, ready_client,
      [NewSession, FromClientSecret ''id'' ''secret'', Refresh stale,
       Exchange (exchange_arguments me_route fresh None PNone)])"
  using expired_credentials_are_refreshed_first[where c=new_client and fb=app_credentials
      and w="simulated (\<lambda>n. Responds (answer 200 []) profile)" and credentials="Some stale"
      and route=me_route and parameters=None and data=PNone]
  by (simp add: get_credentials_def request_def ensure_session_exists_def new_client_def
      ready_client_def simulated_more simulated_fields effective_def stale_def fresh_def
      range_3 emit_def answer_def)

subsection \<open>Endpoint methods\<close>

text \<open>
  Claim C8. Every method that bounds the length of a list, called with more entries than
  its maximum, raises \<^verbatim>\<open>ValueError\<close> with the client unchanged and no effect at all: no
  session, no credential, no exchange and no sleep.
\<close>

theorem too_many_entries_rejected_before_any_request:
  assumes "maximum call < length ids"
  shows "\<exists>msg. call_ids w c call ids = (Inl (ValueError msg), c, [])"
  using assms
  by (cases call)
     (simp_all add: get_albums_def save_albums_def remove_albums_def check_saved_albums_def
        get_artists_def get_shows_def save_shows_def remove_shows_def check_saved_shows_def
        get_episodes_def save_episodes_def remove_episodes_def check_saved_episodes_def
        get_tracks_def save_tracks_def remove_tracks_def check_saved_tracks_def
        get_several_tracks_audio_features_def check_if_users_follow_playlists_def
        follow_users_def follow_artists_def unfollow_users_def unfollow_artists_def
        check_followed_users_def check_followed_artists_def add_items_to_playlist_def
        replace_playlist_items_def remove_items_from_playlist_def get_recommendations_def
        or_empty_def Let_def)

theorem too_many_entries_rejected_before_any_request_witness:
  "call_ids (simulated (\<lambda>n. Responds (answer 200 []) profile)) new_client
     (GetAlbums None None) (replicate 21 ''4aawyAB9vmqN3uQ7FjRGTy'') =
   (Inl (ValueError (CHR 0x27 # ''ids' can not contain more than 20 ids.'')), new_client, [])"
  using too_many_entries_rejected_before_any_request[where call="GetAlbums None None"
      and ids="replicate 21 ''4aawyAB9vmqN3uQ7FjRGTy''"
      and w="simulated (\<lambda>n. Responds (answer 200 []) profile)" and c=new_client]
  by (simp add: get_albums_def)

lemma loop_ignores_limit_value:
  "request_loop (w\<lparr>limit_value := lv\<rparr>) rq tries vars = request_loop w rq tries vars"
  by (induction tries arbitrary: vars)
     (simp_all cong: outcome.case_cong option.case_cong sum.case_cong if_cong)

lemma request_ignores_limit_value:
  "request (w\<lparr>limit_value := lv\<rparr>) c route credentials parameters data =
   request w c route credentials parameters data"
  by (simp add: request_def get_credentials_def loop_ignores_limit_value
      cong: prod.case_cong option.case_cong sum.case_cong if_cong)

lemma request_route_ignores_limit_value:
  "request_route (w\<lparr>limit_value := lv\<rparr>) c m p placeholders parameters data credentials =
   request_route w c m p placeholders parameters data credentials"
  by (simp add: request_route_def request_ignores_limit_value cong: sum.case_cong)

lemma request_route_params:
  assumes "Exchange rq \<in> set (snd (snd (request_route w c m p placeholders parameters data credentials)))"
  shows "req_params rq = parameters"
  using assms request_exchanges
  by (fastforce simp: request_route_def exchange_arguments_def split: sum.splits)

lemma keys_simps [simp]:
  "keys [] = {}"
  "keys ((k, x) # kvs) = insert k (keys kvs)"
  "keys (setitem d k v) = insert k (keys d)"
  "keys (opt_str key s d) = (if truthy_str s then insert key (keys d) else keys d)"
  "keys (opt_int key i d) = (if truthy_int i then insert key (keys d) else keys d)"
  "keys (opt_joined key xs d) = (if truthy_list xs then insert key (keys d) else keys d)"
  "keys (opt_member key m d) = (if m = None then keys d else insert key (keys d))"
  by (auto simp: keys_def setitem_def dom_update opt_str_def opt_int_def opt_joined_def
      opt_member_def truthy_str_def truthy_int_def truthy_list_def split: option.splits)

lemma keys_add_kwargs:
  "add_kwargs valid kwargs d = Inr d' \<Longrightarrow> keys d' = keys kwargs \<union> keys d"
proof (induction kwargs arbitrary: d)
  case Nil
  then show ?case by simp
next
  case (Cons kv kwargs)
  obtain key v where kv: "kv = (key, v)" by (cases kv)
  from Cons.prems kv have "add_kwargs valid kwargs (setitem d key (PInt v)) = Inr d'"
    by (simp split: if_splits)
  from Cons.IH[OF this] kv show ?case by auto
qed

lemma opt_limit_zero: "opt_limit w (Some 0) lo hi d = Inr d" "opt_limit w None lo hi d = Inr d"
  by (simp_all add: opt_limit_def)

lemmas limit_methods =
  get_album_tracks_def get_saved_albums_def get_new_releases_def get_artist_albums_def
  get_show_episodes_def get_saved_shows_def get_saved_episodes_def get_saved_tracks_def
  get_recommendations_def search_def get_current_user_top_artists_def
  get_current_user_top_tracks_def get_followed_artists_def get_playlist_items_def
  get_current_user_playlists_def get_user_playlists_def get_featured_playlists_def
  get_category_playlists_def get_categories_def get_recently_played_tracks_def

lemma zero_is_none:
  "call_limit (w\<lparr>limit_value := lv\<rparr>) c call (Some 0) = call_limit w c call None"
  by (cases call)
     (simp_all add: limit_methods opt_limit_zero request_route_ignores_limit_value opt_int_def Let_def
        cong: sum.case_cong if_cong)

lemma zero_sends_no_limit:
  assumes "well_called call"
    and "Exchange rq \<in> set (snd (snd (call_limit w c call (Some 0))))"
    and "req_params rq = Some ps"
  shows "''limit'' \<notin> keys ps"
  using assms
  by (cases call)
     (auto simp: limit_methods opt_limit_zero Let_def truthy_int_def
        dest!: request_route_params keys_add_kwargs split: sum.splits if_splits)


text \<open>
  Claim C9. For every method with an optional \<^verbatim>\<open>limit\<close>, a call with \<^verbatim>\<open>limit=0\<close> is the
  call with no limit, whatever \<^verbatim>\<open>utils.limit_value\<close> would do: the range check is not
  made, and no exchange of the call has a \<^verbatim>\<open>limit\<close> among its query parameters.
\<close>

theorem zero_limit_is_no_limit:
  assumes "well_called call"
  shows "call_limit (w\<lparr>limit_value := lv\<rparr>) c call (Some 0) = call_limit w c call None \<and>
         (\<forall>rq ps. Exchange rq \<in> set (snd (snd (call_limit w c call (Some 0)))) \<longrightarrow>
                  req_params rq = Some ps \<longrightarrow> ''limit'' \<notin> keys ps)"
  using zero_is_none zero_sends_no_limit[OF assms] by blast

text \<open>
  \<^verbatim>\<open>get_album_tracks\<close> with \<^verbatim>\<open>limit=0\<close>, against a \<^verbatim>\<open>limit_value\<close> that rejects 0 for the
  range 1 to 50.
\<close>

theorem zero_limit_is_no_limit_witness:
  "limit_value (simulated (\<lambda>n. Responds (answer 200 []) profile)) ''limit'' 0 1 50 =
     Some (ValueError ''limit out of range'') \<and>
   call_limit (simulated (\<lambda>n. Responds (answer 200 []) profile)) new_client
     (GetAlbumTracks ''4aawyAB9vmqN3uQ7FjRGTy'' None None None) (Some 0) =
   (Inr profile, ready_client,
    [NewSession, FromClientSecret ''id'' ''secret'',
     Exchange \<lparr>req_method = GET,
               req_url = ''https://api.spotify.com/v1/albums/4aawyAB9vmqN3uQ7FjRGTy/tracks'',
               req_headers = [(''Content-Type'', ''application/json''),
                              (''Authorization'', ''Bearer app-token'')],
               req_params = Some [], req_data = None\<rparr>])"
  using zero_limit_is_no_limit[where call="GetAlbumTracks ''4aawyAB9vmqN3uQ7FjRGTy'' None None None"
      and w="simulated (\<lambda>n. Responds (answer 200 []) profile)"
      and lv="limit_value (simulated (\<lambda>n. Responds (answer 200 []) profile))" and c=new_client]
  by (simp add: simulated_more get_album_tracks_def opt_limit_def opt_str_def opt_int_def
      request_route_def Route_init_def BASE_URL_def quote_def quote_from_bytes_def quote_char_def
      always_safe_def get_field_def is_digit_def is_ascii_def format_value_def
      request_unfold[OF simulated_credentials] simulated_session range_3 emit_def
      simulated_fields answer_def exchange_arguments_def app_credentials_def)

end
